theory Spec2Isabelle
  imports Complex_Main
begin

section \<open>The tortuosity function of porespy.dns\<close>

text \<open>
  The module \<^verbatim>\<open>porespy/dns/__funcs__.py\<close> holds one function, \<^verbatim>\<open>tortuosity\<close>, which
  orchestrates an image filter (\<^verbatim>\<open>trim_nonpercolating_paths\<close>), a pore network and a
  diffusion algorithm of OpenPNM, and a handful of numpy operations. The function is
  embedded line by line. The delegated libraries are not part of the module: their calls
  are the fields of an environment record, each returning either the exception it raises
  or its value.

  The numbers of the source are float64 values. The embedding is polymorphic in the number
  type \<open>'a\<close> and asks only for the syntactic operations the source uses
  (\<open>0\<close>, \<open>1\<close>, \<open>-\<close>, \<open>*\<close>, \<open>/\<close>, \<open><\<close>), with no law assumed of them, so a structural
  theorem holds of float64 arithmetic as well as of exact arithmetic. Two instances are
  used: \<open>real\<close>, for exact arithmetic, and \<open>float64\<close>, defined below with its rounding.
  A theorem that needs a law of arithmetic states the law or is stated of one of the two
  instances.

  The function is named \<open>tortuosity\<close> as in the source; it yields the calls it made and
  either the exception that left it or its local variables at the return statement
  (fields \<open>v_eps0\<close>, \<open>v_im\<close>, ..., named after the variables), among them the named tuple
  it returns (\<open>v_result\<close>, with fields \<open>res_tortuosity\<close>, \<open>res_effective_porosity\<close>, ...).
\<close>

subsection \<open>Arrays, errors and Python indexing\<close>

text \<open>A numpy array: its shape and its elements in C order.\<close>

record 'a ndarray =
  shape :: "nat list"
  data :: "'a list"

definition ndim :: "'a ndarray \<Rightarrow> nat" where
  "ndim im = length (shape im)"

text \<open>\<^verbatim>\<open>im.size\<close> is the product of the shape; \<^verbatim>\<open>im.sum()\<close> counts the True voxels.\<close>

definition im_size :: "'a ndarray \<Rightarrow> nat" where
  "im_size im = prod_list (shape im)"

definition im_sum :: "bool ndarray \<Rightarrow> nat" where
  "im_sum im = length (filter (\<lambda>b. b) (data im))"

text \<open>
  The exceptions that can leave \<^verbatim>\<open>tortuosity\<close>: the two it raises itself, the index and
  assignment errors of its own indexing expressions, and whatever a delegated library
  raises (\<open>Raised\<close>).
\<close>

datatype 'x error =
    AxisTooHigh
  | RatesMismatch
  | IndexError
  | AssignError
  | Raised 'x

text \<open>Python indexing of a sequence of length \<open>n\<close>: negative indices count from the end.\<close>

definition py_norm :: "nat \<Rightarrow> int \<Rightarrow> nat option" where
  "py_norm n i =
     (let j = (if i < 0 then int n + i else i)
      in if 0 \<le> j \<and> j < int n then Some (nat j) else None)"

definition py_index :: "'b list \<Rightarrow> int \<Rightarrow> 'b option" where
  "py_index xs i =
     (case py_norm (length xs) i of None \<Rightarrow> None | Some j \<Rightarrow> Some (xs ! j))"

text \<open>
  \<^verbatim>\<open>net['pore.coords'][:, axis]\<close>: the coordinates are an array of Np rows and three
  columns; the column index is checked against the three columns even when there is no
  row.
\<close>

definition column :: "('a \<times> 'a \<times> 'a) list \<Rightarrow> int \<Rightarrow> 'a list option" where
  "column rows i =
     (case py_norm 3 i of
        None \<Rightarrow> None
      | Some j \<Rightarrow> Some (map (\<lambda>(x, y, z). [x, y, z] ! j) rows))"

text \<open>
  \<^verbatim>\<open>conc[indices] = values\<close> on a one-dimensional array: every index must lie within the
  array (negative ones count from the end), the values must be as many as the indices or
  a single one (broadcast), and of a repeated index the last assignment stays.
\<close>

definition wrap :: "nat \<Rightarrow> int \<Rightarrow> nat" where
  "wrap n i = nat (if i < 0 then int n + i else i)"

definition assign_at :: "'a list \<Rightarrow> int list \<Rightarrow> 'a list \<Rightarrow> 'a list option" where
  "assign_at conc idx vals =
     (let n = length conc in
      if \<exists>i \<in> set idx. i < - int n \<or> int n \<le> i then None
      else if length vals = length idx then
        Some (fold (\<lambda>(i, v) c. c[wrap n i := v]) (zip idx vals) conc)
      else if length vals = 1 then
        Some (fold (\<lambda>i c. c[wrap n i := vals ! 0]) idx conc)
      else None)"

subsection \<open>Runs: the calls made and the outcome\<close>

text \<open>
  A run of the function is the list of calls to the delegated libraries it made, in order,
  and its outcome: the exception that left it, or its value.
\<close>

datatype call =
    Trim
  | Warning
  | Network
  | Phase
  | SetItem
  | Algorithm
  | SetValueBC
  | Run
  | Rate

type_synonym ('x, 'r) run = "call list \<times> ('x error + 'r)"

definition ret :: "'r \<Rightarrow> ('x, 'r) run" where
  "ret v = ([], Inr v)"

definition raise :: "'x error \<Rightarrow> ('x, 'r) run" where
  "raise e = ([], Inl e)"

text \<open>An indexing expression of the function's own: where it fails, its error is raised.\<close>

definition or_raise :: "'x error \<Rightarrow> 'r option \<Rightarrow> ('x, 'r) run" where
  "or_raise e r = ([], case r of None \<Rightarrow> Inl e | Some v \<Rightarrow> Inr v)"

text \<open>A call to a delegated library: it is recorded, and its exception is not touched.\<close>

definition ext :: "call \<Rightarrow> 'x + 'r \<Rightarrow> ('x, 'r) run" where
  "ext c r = ([c], case r of Inl x \<Rightarrow> Inl (Raised x) | Inr v \<Rightarrow> Inr v)"

text \<open>Sequencing: an exception ends the run, there is no handler.\<close>

definition and_then :: "('x, 'r) run \<Rightarrow> ('r \<Rightarrow> ('x, 's) run) \<Rightarrow> ('x, 's) run" where
  "and_then m f =
     (case m of
        (t, Inl e) \<Rightarrow> (t, Inl e)
      | (t, Inr v) \<Rightarrow> (case f v of (t', r) \<Rightarrow> (t @ t', r)))"

subsection \<open>The delegated libraries\<close>

text \<open>Values of keyword arguments and of the algorithm's settings.\<close>

datatype 'a pyval = PyStr string | PyInt int | PyFloat 'a | PyBool bool | PyNone

text \<open>
  The diffusion algorithm object: its settings dictionary, which the function writes
  itself, and the rest of it, which only OpenPNM reads and writes.
\<close>

record ('a, 'fd) algorithm =
  settings :: "string \<rightharpoonup> 'a pyval"
  core :: 'fd

record ('a, 'x, 'net, 'ph, 'fd) env =
  to_float :: "int \<Rightarrow> 'a"
  trim_nonpercolating_paths :: "bool ndarray \<Rightarrow> int \<Rightarrow> int \<Rightarrow> 'x + bool ndarray"
  CubicTemplate :: "bool ndarray \<Rightarrow> int \<Rightarrow> 'x + 'net"
  Water :: "'net \<Rightarrow> 'x + 'ph"
  phase_setitem :: "'ph \<Rightarrow> string \<Rightarrow> int \<Rightarrow> 'x + 'ph"
  FickianDiffusion :: "'net \<Rightarrow> 'ph \<Rightarrow> 'x + ('a, 'fd) algorithm"
  pore_coords :: "'net \<Rightarrow> ('a \<times> 'a \<times> 'a) list"
  template_indices :: "'net \<Rightarrow> int list"
  set_value_BC :: "('a, 'fd) algorithm \<Rightarrow> bool list \<Rightarrow> 'a \<Rightarrow> 'x + ('a, 'fd) algorithm"
  run :: "('a, 'fd) algorithm \<Rightarrow> 'x + ('a, 'fd) algorithm"
  rate :: "('a, 'fd) algorithm \<Rightarrow> bool list \<Rightarrow> 'x + 'a list"
  concentration :: "('a, 'fd) algorithm \<Rightarrow> 'a list"
  allclose :: "'a \<Rightarrow> 'a \<Rightarrow> bool"
  pyamg_found :: bool

subsection \<open>The function\<close>

text \<open>The boundary concentrations, \<^verbatim>\<open>C_in = 1.0\<close> and \<^verbatim>\<open>C_out = 0.0\<close>.\<close>

definition C_in :: "'a::one" where
  "C_in = 1"

definition C_out :: "'a::zero" where
  "C_out = 0"

text \<open>
  Lines 65 to 72: the keyword arguments update the settings when \<^verbatim>\<open>'solver_family'\<close> is
  one of their keys; otherwise the settings get the defaults.
\<close>

definition solver_settings ::
  "(string \<rightharpoonup> 'a pyval) \<Rightarrow> (string \<rightharpoonup> 'a pyval) \<Rightarrow> bool \<Rightarrow> (string \<rightharpoonup> 'a pyval)" where
  "solver_settings s kwargs found =
     (if kwargs ''solver_family'' \<noteq> None then s ++ kwargs
      else
        let s1 = s(''solver_family'' \<mapsto> PyStr ''scipy'');
            s2 = s1(''solver_type'' \<mapsto> PyStr ''cg'')
        in if \<not> found then s2(''solver_family'' \<mapsto> PyStr ''pyamg'') else s2)"

text \<open>
  Lines 50 to 76: the network, the phase, the algorithm, the boundary conditions, the
  solver's settings, the solve and the two molar flow rates.
\<close>

record ('a, 'net, 'fd) simulation =
  net :: 'net
  fd :: "('a, 'fd) algorithm"
  inlets :: "bool list"
  outlets :: "bool list"
  rate_out :: 'a
  rate_in :: 'a

definition simulate ::
  "('a::{zero,one,ord}, 'x, 'net, 'ph, 'fd) env \<Rightarrow> bool ndarray \<Rightarrow> int \<Rightarrow>
   (string \<rightharpoonup> 'a pyval) \<Rightarrow> ('x, ('a, 'net, 'fd) simulation) run" where
  "simulate env im axis kwargs =
     and_then (ext Network (CubicTemplate env im 1)) (\<lambda>net.
     and_then (ext Phase (Water env net)) (\<lambda>water.
     and_then (ext SetItem (phase_setitem env water ''throat.diffusive_conductance'' 1)) (\<lambda>water.
     and_then (ext Algorithm (FickianDiffusion env net water)) (\<lambda>fd.
     and_then (or_raise IndexError (column (pore_coords env net) axis)) (\<lambda>col.
     let inlets = map (\<lambda>c. c \<le> 1) col in
     and_then (or_raise IndexError (column (pore_coords env net) axis)) (\<lambda>col.
     and_then (or_raise IndexError (py_index (shape im) axis)) (\<lambda>n.
     let outlets = map (\<lambda>c. c \<ge> to_float env (int n - 1)) col in
     and_then (ext SetValueBC (set_value_BC env fd inlets C_in)) (\<lambda>fd.
     and_then (ext SetValueBC (set_value_BC env fd outlets C_out)) (\<lambda>fd.
     let fd = fd\<lparr>settings := solver_settings (settings fd) kwargs (pyamg_found env)\<rparr> in
     and_then (ext Run (run env fd)) (\<lambda>fd.
     and_then (ext Rate (rate env fd outlets)) (\<lambda>r_out.
     and_then (or_raise IndexError (py_index r_out 0)) (\<lambda>rate_out.
     and_then (ext Rate (rate env fd inlets)) (\<lambda>r_in.
     and_then (or_raise IndexError (py_index r_in 0)) (\<lambda>rate_in.
     ret \<lparr>net = net, fd = fd, inlets = inlets, outlets = outlets,
          rate_out = rate_out, rate_in = rate_in\<rparr>))))))))))))))"

text \<open>
  The named tuple the function returns, and its local variables at the return statement,
  the result among them.
\<close>

record 'a tortuosity_result =
  res_tortuosity :: 'a
  res_effective_porosity :: 'a
  res_original_porosity :: 'a
  res_formation_factor :: 'a
  res_image :: "'a ndarray option"

record ('a, 'net, 'fd) locals =
  v_eps0 :: 'a
  v_im :: "bool ndarray"
  v_eps :: 'a
  v_sim :: "('a, 'net, 'fd) simulation"
  v_delta_C :: 'a
  v_L :: nat
  v_A :: 'a
  v_N_A :: 'a
  v_Deff :: 'a
  v_tau :: 'a
  v_result :: "'a tortuosity_result"

definition tortuosity ::
  "('a::{zero,one,minus,uminus,times,inverse,ord}, 'x, 'net, 'ph, 'fd) env \<Rightarrow>
   bool ndarray \<Rightarrow> int \<Rightarrow> bool \<Rightarrow> (string \<rightharpoonup> 'a pyval) \<Rightarrow>
   ('x, ('a, 'net, 'fd) locals) run" where
  "tortuosity env im axis return_im kwargs =
     (if axis > int (ndim im) - 1 then raise AxisTooHigh
      else
        let eps0 = to_float env (int (im_sum im)) / to_float env (int (im_size im)) in
        and_then (ext Trim (trim_nonpercolating_paths env im axis axis)) (\<lambda>im.
        let eps = to_float env (int (im_sum im)) / to_float env (int (im_size im)) in
        and_then (if eps < eps0 then ([Warning], Inr ()) else ret ()) (\<lambda>_.
        and_then (simulate env im axis kwargs) (\<lambda>sim.
        if \<not> allclose env (- rate_out sim) (rate_in sim) then raise RatesMismatch
        else
          let delta_C = C_in - C_out in
          and_then (or_raise IndexError (py_index (shape im) axis)) (\<lambda>L.
          let A = to_float env (int (prod_list (shape im))) / to_float env (int L);
              N_A = A / to_float env (int L) * delta_C;
              Deff = rate_in sim / N_A;
              tau = eps / Deff
          in
          and_then
            (if return_im then
               and_then
                 (or_raise AssignError (assign_at (replicate (im_size im) 0)
                    (template_indices env (net sim)) (concentration env (fd sim))))
                 (\<lambda>conc. ret (Some \<lparr>shape = shape im, data = conc\<rparr>))
             else ret None)
            (\<lambda>image.
          ret \<lparr>v_eps0 = eps0, v_im = im, v_eps = eps, v_sim = sim, v_delta_C = delta_C,
               v_L = L, v_A = A, v_N_A = N_A, v_Deff = Deff, v_tau = tau,
               v_result = \<lparr>res_tortuosity = tau, res_effective_porosity = eps,
                 res_original_porosity = eps0, res_formation_factor = 1 / Deff,
                 res_image = image\<rparr>\<rparr>))))))"

subsection \<open>A test double of the delegated libraries\<close>

text \<open>
  A concrete environment on which the function runs to its end, in exact arithmetic
  (\<open>real\<close>). It stands for a chain of three pores along axis 0: the image of three rows
  whose open voxels are the first column. The filter removes nothing, the network lists
  the open voxels, the concentrations fall linearly from the first pore to the last, and
  the flow through the two throats of unit conductance is 1/2. \<open>np_allclose\<close> is numpy's
  test with its default tolerances.
\<close>

definition np_allclose :: "real \<Rightarrow> real \<Rightarrow> bool" where
  "np_allclose a b = (\<bar>a - b\<bar> \<le> 1 / 10 ^ 8 + 1 / 10 ^ 5 * \<bar>b\<bar>)"

definition chain_coords :: "(real \<times> real \<times> real) list" where
  "chain_coords = [(1 / 2, 1 / 2, 1 / 2), (3 / 2, 1 / 2, 1 / 2), (5 / 2, 1 / 2, 1 / 2)]"

definition open_voxels :: "bool ndarray \<Rightarrow> int list" where
  "open_voxels im = map int (filter (\<lambda>k. data im ! k) [0..<im_size im])"

definition chain_rate :: "bool list \<Rightarrow> real" where
  "chain_rate pores =
     (if pores = [True, False, False] then 1 / 2
      else if pores = [False, False, True] then - (1 / 2)
      else 0)"

definition chain_env :: "(real, string, int list, unit, unit) env" where
  "chain_env =
     \<lparr>to_float = of_int,
      trim_nonpercolating_paths = (\<lambda>im inlet_axis outlet_axis. Inr im),
      CubicTemplate = (\<lambda>im spacing. Inr (open_voxels im)),
      Water = (\<lambda>net. Inr ()),
      phase_setitem = (\<lambda>ph key v. Inr ph),
      FickianDiffusion = (\<lambda>net ph. Inr \<lparr>settings = Map.empty, core = ()\<rparr>),
      pore_coords = (\<lambda>net. chain_coords),
      template_indices = (\<lambda>net. net),
      set_value_BC = (\<lambda>fd pores v. Inr fd),
      run = (\<lambda>fd. Inr fd),
      rate = (\<lambda>fd pores. Inr [chain_rate pores]),
      concentration = (\<lambda>fd. [1, 1 / 2, 0]),
      allclose = np_allclose,
      pyamg_found = True\<rparr>"

text \<open>The fully open slab of three rows and one column, and the channel beside a wall.\<close>

definition slab :: "bool ndarray" where
  "slab = \<lparr>shape = [3, 1], data = [True, True, True]\<rparr>"

definition channel :: "bool ndarray" where
  "channel = \<lparr>shape = [3, 2], data = [True, False, True, False, True, False]\<rparr>"

text \<open>
  A mocked solver whose outlet flow does not balance the inlet flow.
\<close>

definition leaky_env :: "(real, string, int list, unit, unit) env" where
  "leaky_env =
     chain_env\<lparr>rate := (\<lambda>fd pores.
       Inr [if pores = [True, False, False] then 1 / 2 else - (1 / 4)])\<rparr>"



text \<open>
  The test double with one call that raises: the call number \<open>k\<close> of the ten calls a run
  makes, in order (the filter, the network, the phase, the conductance, the algorithm,
  the two boundary conditions, the solve, the outlet rate and the inlet rate).
\<close>

definition broken_env :: "nat \<Rightarrow> (real, string, int list, unit, unit) env" where
  "broken_env k =
     chain_env\<lparr>
       trim_nonpercolating_paths :=
         (\<lambda>im inlet_axis outlet_axis. if k = 0 then Inl ''trim'' else Inr im),
       CubicTemplate :=
         (\<lambda>im spacing. if k = 1 then Inl ''network'' else Inr (open_voxels im)),
       Water := (\<lambda>nw. if k = 2 then Inl ''phase'' else Inr ()),
       phase_setitem := (\<lambda>ph key v. if k = 3 then Inl ''conductance'' else Inr ph),
       FickianDiffusion :=
         (\<lambda>nw ph. if k = 4 then Inl ''algorithm''
            else Inr \<lparr>settings = Map.empty, core = ()\<rparr>),
       set_value_BC :=
         (\<lambda>a pores v. if k = 5 \<and> v = 1 then Inl ''inlet''
            else if k = 6 \<and> v = 0 then Inl ''outlet'' else Inr a),
       run := (\<lambda>a. if k = 7 then Inl ''singular matrix'' else Inr a),
       rate :=
         (\<lambda>a pores. if k = 8 \<and> pores = [False, False, True] then Inl ''rate out''
            else if k = 9 \<and> pores = [True, False, False] then Inl ''rate in''
            else Inr [chain_rate pores])\<rparr>"

subsection \<open>The float64 numbers\<close>

text \<open>
  The numbers of a run are float64 values. A finite one is kept as the real number it
  stands for, \<open>Finite 0\<close> being the positive zero; the negative zero is a value of its
  own, and the others are the two infinities and NaN. An operation on finite values is
  the exact operation followed by \<open>round64\<close>, the rounding to the nearest float64 value,
  ties to the even significand: 53 bits of significand, exponents from \<open>-1074\<close> (the
  subnormal values) up, and an overflow to infinity from \<open>2 ^ 1024\<close> on. A zero result
  has the sign IEEE 754 gives it, and a division by zero gives an infinity of that
  sign or NaN, as numpy's scalars do.
\<close>

text \<open>The number of bits of a positive integer.\<close>

function bit_length :: "int \<Rightarrow> int" where
  "bit_length n = (if n \<le> 0 then 0 else 1 + bit_length (n div 2))"
  by pat_completeness auto

termination
  by (relation "measure nat") auto

declare bit_length.simps [simp del]

definition pow2 :: "int \<Rightarrow> real" where
  "pow2 e = (if 0 \<le> e then 2 ^ nat e else 1 / 2 ^ nat (- e))"

text \<open>\<open>ilog2 q\<close> is the exponent \<open>e\<close> with \<open>2 ^ e \<le> q < 2 ^ (e + 1)\<close>, for \<open>q > 0\<close>.\<close>

definition ilog2 :: "real \<Rightarrow> int" where
  "ilog2 q =
     (if 1 \<le> q then bit_length \<lfloor>q\<rfloor> - 1 else - bit_length (\<lceil>1 / q\<rceil> - 1))"

definition round_even :: "real \<Rightarrow> int" where
  "round_even x =
     (let n = \<lfloor>x\<rfloor>; d = x - of_int n
      in if d < 1 / 2 then n else if 1 / 2 < d then n + 1
         else if even n then n else n + 1)"

datatype float64 = Finite real | NZero | PInf | NInf | NaN

text \<open>The zero and the infinity of a sign (\<open>True\<close> for the negative one).\<close>

definition f64_zero :: "bool \<Rightarrow> float64" where
  "f64_zero neg = (if neg then NZero else Finite 0)"

definition f64_inf :: "bool \<Rightarrow> float64" where
  "f64_inf neg = (if neg then NInf else PInf)"

text \<open>The real number of a finite value, and the sign bit of a value.\<close>

fun f64_finite :: "float64 \<Rightarrow> real option" where
  "f64_finite (Finite a) = Some a"
| "f64_finite NZero = Some 0"
| "f64_finite PInf = None"
| "f64_finite NInf = None"
| "f64_finite NaN = None"

fun f64_negative :: "float64 \<Rightarrow> bool" where
  "f64_negative (Finite a) = (a < 0)"
| "f64_negative NZero = True"
| "f64_negative PInf = False"
| "f64_negative NInf = True"
| "f64_negative NaN = False"

text \<open>
  The rounding of a real number; a number other than zero that rounds to zero keeps
  its sign.
\<close>

definition round64 :: "real \<Rightarrow> float64" where
  "round64 q =
     (if q = 0 then Finite 0
      else
        let e = max (ilog2 \<bar>q\<bar> - 52) (- 1074);
            v = of_int (round_even (\<bar>q\<bar> / pow2 e)) * pow2 e
        in if pow2 1024 \<le> v then f64_inf (q < 0)
           else if v = 0 then f64_zero (q < 0)
           else Finite (if 0 < q then v else - v))"

fun f64_uminus :: "float64 \<Rightarrow> float64" where
  "f64_uminus (Finite a) = (if a = 0 then NZero else Finite (- a))"
| "f64_uminus NZero = Finite 0"
| "f64_uminus PInf = NInf"
| "f64_uminus NInf = PInf"
| "f64_uminus NaN = NaN"

fun f64_abs :: "float64 \<Rightarrow> float64" where
  "f64_abs (Finite a) = Finite \<bar>a\<bar>"
| "f64_abs NZero = Finite 0"
| "f64_abs PInf = PInf"
| "f64_abs NInf = PInf"
| "f64_abs NaN = NaN"

text \<open>
  A sum that is exactly zero is the positive zero, unless both terms are the negative
  zero.
\<close>

definition f64_plus :: "float64 \<Rightarrow> float64 \<Rightarrow> float64" where
  "f64_plus x y =
     (case (f64_finite x, f64_finite y) of
        (Some a, Some b) \<Rightarrow>
          if a + b = 0 then f64_zero (x = NZero \<and> y = NZero) else round64 (a + b)
      | (Some a, None) \<Rightarrow> y
      | (None, Some b) \<Rightarrow> x
      | (None, None) \<Rightarrow> if x = y then x else NaN)"

definition f64_minus :: "float64 \<Rightarrow> float64 \<Rightarrow> float64" where
  "f64_minus x y = f64_plus x (f64_uminus y)"

text \<open>The sign of a product or of a quotient is the product of the signs.\<close>

definition f64_times :: "float64 \<Rightarrow> float64 \<Rightarrow> float64" where
  "f64_times x y =
     (let neg = (f64_negative x \<noteq> f64_negative y)
      in case (f64_finite x, f64_finite y) of
        (Some a, Some b) \<Rightarrow> if a * b = 0 then f64_zero neg else round64 (a * b)
      | (Some a, None) \<Rightarrow> if y = NaN \<or> a = 0 then NaN else f64_inf neg
      | (None, Some b) \<Rightarrow> if x = NaN \<or> b = 0 then NaN else f64_inf neg
      | (None, None) \<Rightarrow> if x = NaN \<or> y = NaN then NaN else f64_inf neg)"

definition f64_divide :: "float64 \<Rightarrow> float64 \<Rightarrow> float64" where
  "f64_divide x y =
     (let neg = (f64_negative x \<noteq> f64_negative y)
      in case (f64_finite x, f64_finite y) of
        (Some a, Some b) \<Rightarrow>
          if b = 0 then (if a = 0 then NaN else f64_inf neg)
          else if a = 0 then f64_zero neg
          else round64 (a / b)
      | (Some a, None) \<Rightarrow> if y = NaN then NaN else f64_zero neg
      | (None, Some b) \<Rightarrow> if x = NaN then NaN else f64_inf neg
      | (None, None) \<Rightarrow> NaN)"

text \<open>The order is the order of the values: the two zeros are equal, NaN is unordered.\<close>

definition f64_less_eq :: "float64 \<Rightarrow> float64 \<Rightarrow> bool" where
  "f64_less_eq x y =
     (case (f64_finite x, f64_finite y) of
        (Some a, Some b) \<Rightarrow> a \<le> b
      | _ \<Rightarrow> x \<noteq> NaN \<and> y \<noteq> NaN \<and> (x = NInf \<or> y = PInf))"

definition f64_less :: "float64 \<Rightarrow> float64 \<Rightarrow> bool" where
  "f64_less x y = (f64_less_eq x y \<and> \<not> f64_less_eq y x)"

instantiation float64 :: "{zero,one,minus,uminus,times,inverse,ord}"
begin

definition zero_float64 :: float64 where
  "zero_float64 = Finite 0"

definition one_float64 :: float64 where
  "one_float64 = Finite 1"

definition minus_float64 :: "float64 \<Rightarrow> float64 \<Rightarrow> float64" where
  "minus_float64 = f64_minus"

definition uminus_float64 :: "float64 \<Rightarrow> float64" where
  "uminus_float64 = f64_uminus"

definition times_float64 :: "float64 \<Rightarrow> float64 \<Rightarrow> float64" where
  "times_float64 = f64_times"

definition divide_float64 :: "float64 \<Rightarrow> float64 \<Rightarrow> float64" where
  "divide_float64 = f64_divide"

definition inverse_float64 :: "float64 \<Rightarrow> float64" where
  "inverse_float64 x = f64_divide (Finite 1) x"

definition less_eq_float64 :: "float64 \<Rightarrow> float64 \<Rightarrow> bool" where
  "less_eq_float64 = f64_less_eq"

definition less_float64 :: "float64 \<Rightarrow> float64 \<Rightarrow> bool" where
  "less_float64 = f64_less"

instance ..

end

text \<open>
  A normal value: finite, of magnitude at least \<open>2 ^ -1022\<close>, the least magnitude that
  has all 53 bits of significand.
\<close>

definition f64_normal :: "float64 \<Rightarrow> bool" where
  "f64_normal x = (case x of Finite a \<Rightarrow> pow2 (- 1022) \<le> \<bar>a\<bar> | _ \<Rightarrow> False)"

text \<open>
  \<^verbatim>\<open>np.allclose(x, y)\<close> on scalars, with numpy's default tolerances:
  \<open>|x - y| \<le> atol + rtol * |y|\<close> evaluated in float64 for finite values, equality for
  infinities, false for NaN.
\<close>

definition f64_allclose :: "float64 \<Rightarrow> float64 \<Rightarrow> bool" where
  "f64_allclose x y =
     (if f64_finite x \<noteq> None \<and> f64_finite y \<noteq> None
      then f64_abs (x - y) \<le>
        f64_plus (round64 (1 / 10 ^ 8)) (round64 (1 / 10 ^ 5) * f64_abs y)
      else x = y \<and> x \<noteq> NaN)"

text \<open>
  A test double in float64: the image of four rows and five columns whose columns 0, 2
  and 4 are open, seen along axis 0 as three chains of four pores. Each chain carries
  the flow 1/3, so the mocked solver reports the inlet flow 1 and the outlet flow -1.
\<close>

definition comb :: "bool ndarray" where
  "comb = \<lparr>shape = [4, 5],
     data = concat (replicate 4 [True, False, True, False, True])\<rparr>"

definition comb_coords :: "(float64 \<times> float64 \<times> float64) list" where
  "comb_coords =
     concat (map (\<lambda>i. map (\<lambda>j. (Finite (i + 1 / 2), Finite (j + 1 / 2), Finite (1 / 2)))
       [0, 2, 4]) [0, 1, 2, 3])"

definition comb_rate :: "bool list \<Rightarrow> float64" where
  "comb_rate pores =
     (if pores = [True, True, True, False, False, False,
                  False, False, False, False, False, False] then Finite 1
      else if pores = [False, False, False, False, False, False,
                       False, False, False, True, True, True] then Finite (- 1)
      else Finite 0)"

definition float_env :: "(float64, string, int list, unit, unit) env" where
  "float_env =
     \<lparr>to_float = (\<lambda>i. round64 (of_int i)),
      trim_nonpercolating_paths = (\<lambda>im inlet_axis outlet_axis. Inr im),
      CubicTemplate = (\<lambda>im spacing. Inr (open_voxels im)),
      Water = (\<lambda>nw. Inr ()),
      phase_setitem = (\<lambda>ph key v. Inr ph),
      FickianDiffusion = (\<lambda>nw ph. Inr \<lparr>settings = Map.empty, core = ()\<rparr>),
      pore_coords = (\<lambda>nw. comb_coords),
      template_indices = (\<lambda>nw. nw),
      set_value_BC = (\<lambda>a pores v. Inr a),
      run = (\<lambda>a. Inr a),
      rate = (\<lambda>a pores. Inr [comb_rate pores]),
      concentration = (\<lambda>a. concat (map (\<lambda>c. replicate 3 (round64 c)) [1, 2 / 3, 1 / 3, 0])),
      allclose = f64_allclose,
      pyamg_found = True\<rparr>"

text \<open>The named tuple a run returns, if it returns.\<close>

definition returned :: "('x, ('a, 'net, 'fd) locals) run \<Rightarrow> 'a tortuosity_result option" where
  "returned r = (case snd r of Inl e \<Rightarrow> None | Inr f \<Rightarrow> Some (v_result f))"

section \<open>Properties\<close>

subsection \<open>Outcomes of a sequence of steps\<close>

lemma and_then_Inr:
  "and_then m f = (t, Inr r) \<longleftrightarrow>
     (\<exists>t1 v t2. m = (t1, Inr v) \<and> f v = (t2, Inr r) \<and> t = t1 @ t2)"
  by (auto simp: and_then_def split: prod.splits sum.splits)

lemma snd_and_then:
  "snd (and_then m f) = (case snd m of Inl e \<Rightarrow> Inl e | Inr v \<Rightarrow> snd (f v))"
  by (auto simp: and_then_def split: prod.splits sum.splits)

lemma snd_ext: "snd (ext c r) = (case r of Inl x \<Rightarrow> Inl (Raised x) | Inr v \<Rightarrow> Inr v)"
  by (simp add: ext_def)

lemma snd_or_raise: "snd (or_raise e r) = (case r of None \<Rightarrow> Inl e | Some v \<Rightarrow> Inr v)"
  by (simp add: or_raise_def)

lemma snd_ret: "snd (ret v) = Inr v"
  by (simp add: ret_def)

lemma snd_raise: "snd (raise e) = Inl e"
  by (simp add: raise_def)

lemma ext_Inr: "ext c r = (t, Inr v) \<longleftrightarrow> r = Inr v \<and> t = [c]"
  by (auto simp: ext_def split: sum.splits)

lemma or_raise_Inr: "or_raise e r = (t, Inr v) \<longleftrightarrow> r = Some v \<and> t = []"
  by (auto simp: or_raise_def split: option.splits)

lemma ret_Inr: "ret v = (t, Inr w) \<longleftrightarrow> w = v \<and> t = []"
  by (auto simp: ret_def)

lemma raise_Inr: "raise e \<noteq> (t, Inr w)"
  by (simp add: raise_def)

lemmas run_Inr = and_then_Inr ext_Inr or_raise_Inr ret_Inr raise_Inr

lemma py_index_0: "py_index xs 0 = Some x \<longleftrightarrow> (\<exists>rs. xs = x # rs)"
  by (cases xs) (auto simp: py_index_def py_norm_def)

subsection \<open>What a run that returns has done\<close>

lemma simulate_returns:
  assumes "simulate env im axis kwargs = (t, Inr s)"
  shows "CubicTemplate env im 1 = Inr (net s)"
    and "\<exists>water water' fd0 fd1 fd2.
           Water env (net s) = Inr water \<and>
           phase_setitem env water ''throat.diffusive_conductance'' 1 = Inr water' \<and>
           FickianDiffusion env (net s) water' = Inr fd0 \<and>
           set_value_BC env fd0 (inlets s) C_in = Inr fd1 \<and>
           set_value_BC env fd1 (outlets s) C_out = Inr fd2 \<and>
           run env (fd2\<lparr>settings := solver_settings (settings fd2) kwargs (pyamg_found env)\<rparr>)
             = Inr (fd s)"
    and "\<exists>col n. column (pore_coords env (net s)) axis = Some col \<and>
           py_index (shape im) axis = Some n \<and>
           inlets s = map (\<lambda>c. c \<le> 1) col \<and>
           outlets s = map (\<lambda>c. c \<ge> to_float env (int n - 1)) col"
    and "\<exists>rs. rate env (fd s) (outlets s) = Inr (rate_out s # rs)"
    and "\<exists>rs. rate env (fd s) (inlets s) = Inr (rate_in s # rs)"
    and "t = [Network, Phase, SetItem, Algorithm, SetValueBC, SetValueBC, Run, Rate, Rate]"
  using assms
  unfolding simulate_def Let_def
  by (auto simp: run_Inr py_index_0)

lemma tortuosity_returns:
  assumes "tortuosity env im axis return_im kwargs = (t, Inr f)"
  shows "\<not> int (ndim im) - 1 < axis"
    and "trim_nonpercolating_paths env im axis axis = Inr (v_im f)"
    and "\<exists>t2. simulate env (v_im f) axis kwargs = (t2, Inr (v_sim f))"
    and "allclose env (- rate_out (v_sim f)) (rate_in (v_sim f))"
    and "py_index (shape (v_im f)) axis = Some (v_L f)"
    and "v_eps0 f = to_float env (int (im_sum im)) / to_float env (int (im_size im))"
    and "v_eps f =
           to_float env (int (im_sum (v_im f))) / to_float env (int (im_size (v_im f)))"
    and "v_delta_C f = C_in - C_out"
    and "v_A f =
           to_float env (int (prod_list (shape (v_im f)))) / to_float env (int (v_L f))"
    and "v_N_A f = v_A f / to_float env (int (v_L f)) * v_delta_C f"
    and "v_Deff f = rate_in (v_sim f) / v_N_A f"
    and "v_tau f = v_eps f / v_Deff f"
    and "res_tortuosity (v_result f) = v_tau f"
    and "res_effective_porosity (v_result f) = v_eps f"
    and "res_original_porosity (v_result f) = v_eps0 f"
    and "res_formation_factor (v_result f) = 1 / v_Deff f"
    and "return_im \<Longrightarrow> \<exists>conc.
           assign_at (replicate (im_size (v_im f)) 0) (template_indices env (net (v_sim f)))
             (concentration env (fd (v_sim f))) = Some conc \<and>
           res_image (v_result f) = Some \<lparr>shape = shape (v_im f), data = conc\<rparr>"
    and "\<not> return_im \<Longrightarrow> res_image (v_result f) = None"
  using assms
  unfolding tortuosity_def Let_def
  by (auto simp: run_Inr split: if_splits)

subsection \<open>Runs of the test double\<close>

lemmas run_defs = and_then_def ext_def or_raise_def ret_def raise_def

lemma open_voxels_slab: "open_voxels slab = [0, 1, 2]"
  by code_simp

lemma open_voxels_channel: "open_voxels channel = [0, 2, 4]"
  by code_simp

lemma assign_at_channel:
  "assign_at (replicate 6 0) [0, 2, 4] [1, 1 / 2, 0 :: real] = Some [1, 0, 1 / 2, 0, 0, 0]"
  by code_simp

lemmas chain_defs = chain_env_def chain_coords_def chain_rate_def np_allclose_def

lemmas array_defs = py_index_def py_norm_def column_def im_sum_def im_size_def ndim_def

lemma slab_run:
  "\<exists>f. tortuosity chain_env slab 0 False Map.empty =
         ([Trim, Network, Phase, SetItem, Algorithm, SetValueBC, SetValueBC, Run, Rate, Rate],
          Inr f) \<and>
       v_im f = slab \<and> rate_in (v_sim f) = 1 / 2 \<and> rate_out (v_sim f) = - (1 / 2) \<and>
       v_result f = \<lparr>res_tortuosity = 2 / 3, res_effective_porosity = 1,
         res_original_porosity = 1, res_formation_factor = 2 / 3, res_image = None\<rparr>"
  by (simp add: tortuosity_def simulate_def open_voxels_slab run_defs chain_defs
      array_defs C_in_def C_out_def Let_def)
    (simp add: slab_def)

lemma channel_run:
  "\<exists>f. tortuosity chain_env channel 0 True Map.empty =
         ([Trim, Network, Phase, SetItem, Algorithm, SetValueBC, SetValueBC, Run, Rate, Rate],
          Inr f) \<and>
       v_im f = channel \<and> rate_in (v_sim f) = 1 / 2 \<and> rate_out (v_sim f) = - (1 / 2) \<and>
       v_result f = \<lparr>res_tortuosity = 2 / 3, res_effective_porosity = 1 / 2,
         res_original_porosity = 1 / 2, res_formation_factor = 4 / 3,
         res_image = Some \<lparr>shape = [3, 2], data = [1, 0, 1 / 2, 0, 0, 0]\<rparr>\<rparr>"
  by (simp add: tortuosity_def simulate_def open_voxels_channel run_defs chain_defs
      array_defs C_in_def C_out_def Let_def)
    (simp add: channel_def assign_at_channel)

subsection \<open>The axis check\<close>

lemma not_axis_and_then:
  "snd m \<noteq> Inl AxisTooHigh \<Longrightarrow> (\<And>v. snd (f v) \<noteq> Inl AxisTooHigh) \<Longrightarrow>
   snd (and_then m f) \<noteq> Inl AxisTooHigh"
  by (auto simp: snd_and_then split: sum.splits)

lemma not_axis_ext: "snd (ext c r) \<noteq> Inl AxisTooHigh"
  by (simp add: snd_ext split: sum.splits)

lemma not_axis_index: "snd (or_raise IndexError r) \<noteq> Inl AxisTooHigh"
  by (simp add: snd_or_raise split: option.splits)

lemma not_axis_assign: "snd (or_raise AssignError r) \<noteq> Inl AxisTooHigh"
  by (simp add: snd_or_raise split: option.splits)

lemma not_axis_ret: "snd (ret v) \<noteq> Inl AxisTooHigh"
  by (simp add: snd_ret)

lemmas not_axis = not_axis_and_then not_axis_ext not_axis_index not_axis_assign
  not_axis_ret

lemma not_axis_simulate: "snd (simulate env im axis kwargs) \<noteq> Inl AxisTooHigh"
  unfolding simulate_def Let_def by (intro not_axis)

lemma not_axis_tortuosity:
  "\<not> int (ndim im) - 1 < axis \<Longrightarrow>
   snd (tortuosity env im axis return_im kwargs) \<noteq> Inl AxisTooHigh"
  unfolding tortuosity_def Let_def
  apply (simp only: if_False)
  apply (intro not_axis not_axis_simulate)
  apply (simp_all add: snd_raise snd_ret not_axis not_axis_simulate split: if_splits)
  done

text \<open>
  C3. An axis greater than \<open>im.ndim - 1\<close> raises the axis error before any call to a
  delegated library (no trimming, no network, no solve), and the axis error is raised
  under that condition only.
\<close>

theorem axis_too_high:
  "(int (ndim im) - 1 < axis \<longrightarrow>
      tortuosity env im axis return_im kwargs = ([], Inl AxisTooHigh)) \<and>
   (snd (tortuosity env im axis return_im kwargs) = Inl AxisTooHigh \<longrightarrow>
      int (ndim im) - 1 < axis)"
  using not_axis_tortuosity [of im axis env return_im kwargs]
  by (auto simp: tortuosity_def raise_def)

theorem axis_too_high_witness:
  "int (ndim slab) - 1 < 2 \<and>
   tortuosity chain_env slab 2 False Map.empty = ([], Inl AxisTooHigh) \<and>
   snd (tortuosity chain_env slab 2 False Map.empty) = Inl AxisTooHigh"
  using axis_too_high [of slab 2 chain_env False Map.empty]
  by (simp add: ndim_def slab_def)

subsection \<open>The tortuosity and the porosities\<close>

text \<open>
  C1. Of every run that returns, the tortuosity is the effective porosity divided by the
  effective diffusivity \<open>rate_in / N_A\<close>, where \<open>N_A = A / L * (C_in - C_out)\<close>,
  \<open>L = im.shape[axis]\<close>, \<open>A = prod(im.shape) / L\<close>, \<open>C_in = 1\<close>, \<open>C_out = 0\<close> and
  \<open>rate_in\<close> is the first entry of the molar flow the algorithm reports for the inlet
  pores.
\<close>

theorem tortuosity_formula:
  assumes "tortuosity env im axis return_im kwargs = (t, Inr f)"
  shows "\<exists>L rs.
     py_index (shape (v_im f)) axis = Some L \<and>
     rate env (fd (v_sim f)) (inlets (v_sim f)) = Inr (rate_in (v_sim f) # rs) \<and>
     res_tortuosity (v_result f) =
       res_effective_porosity (v_result f) /
         (rate_in (v_sim f) /
            (to_float env (int (prod_list (shape (v_im f)))) / to_float env (int L)
               / to_float env (int L) * (1 - 0)))"
proof -
  note r = tortuosity_returns [OF assms]
  from r(3) obtain t2 where "simulate env (v_im f) axis kwargs = (t2, Inr (v_sim f))"
    by blast
  from simulate_returns(5) [OF this] obtain rs
    where "rate env (fd (v_sim f)) (inlets (v_sim f)) = Inr (rate_in (v_sim f) # rs)"
    by blast
  moreover have "res_tortuosity (v_result f) =
       res_effective_porosity (v_result f) /
         (rate_in (v_sim f) /
            (to_float env (int (prod_list (shape (v_im f)))) / to_float env (int (v_L f))
               / to_float env (int (v_L f)) * (1 - 0)))"
    by (simp add: r(8-14) C_in_def C_out_def)
  ultimately show ?thesis
    using r(5) by blast
qed

theorem tortuosity_formula_witness:
  "\<exists>t f. tortuosity chain_env channel 0 True Map.empty = (t, Inr f) \<and>
     py_index (shape (v_im f)) 0 = Some 3 \<and>
     rate chain_env (fd (v_sim f)) (inlets (v_sim f)) = Inr [1 / 2] \<and>
     rate_in (v_sim f) = 1 / 2 \<and>
     res_effective_porosity (v_result f) = 1 / 2 \<and>
     res_tortuosity (v_result f) = (1 / 2) / ((1 / 2) / (6 / 3 / 3 * (1 - 0)))"
proof -
  from channel_run obtain t f
    where run: "tortuosity chain_env channel 0 True Map.empty = (t, Inr f)"
      and vals: "v_im f = channel" "rate_in (v_sim f) = 1 / 2"
        "res_effective_porosity (v_result f) = 1 / 2"
    by fastforce
  from tortuosity_formula [OF run] obtain L rs
    where idx: "py_index (shape (v_im f)) 0 = Some L"
      and flow: "rate chain_env (fd (v_sim f)) (inlets (v_sim f)) =
         Inr (rate_in (v_sim f) # rs)"
      and tau: "res_tortuosity (v_result f) =
         res_effective_porosity (v_result f) /
           (rate_in (v_sim f) /
              (to_float chain_env (int (prod_list (shape (v_im f)))) /
                 to_float chain_env (int L) / to_float chain_env (int L) * (1 - 0)))"
    by blast
  have L: "L = 3"
    using idx by (simp add: vals(1) channel_def py_index_def py_norm_def)
  have a: "to_float chain_env (int (prod_list (shape channel))) = 6"
    and b: "to_float chain_env (int 3) = 3"
    by (simp_all add: chain_env_def channel_def)
  from flow have "rate chain_env (fd (v_sim f)) (inlets (v_sim f)) = Inr [rate_in (v_sim f)]"
    by (simp add: chain_env_def)
  then have "rate chain_env (fd (v_sim f)) (inlets (v_sim f)) = Inr [1 / 2]"
    by (simp only: vals(2))
  moreover from tau
  have "res_tortuosity (v_result f) = (1 / 2) / ((1 / 2) / (6 / 3 / 3 * (1 - 0)))"
    by (simp only: vals L a b)
  moreover from idx have "py_index (shape (v_im f)) 0 = Some 3"
    by (simp only: L)
  ultimately show ?thesis
    using run vals by blast
qed

text \<open>
  C4. When the filter removes no voxel (it returns the image it was given), the effective
  porosity of the result equals its original porosity, and both are the number of True
  voxels divided by the number of voxels.
\<close>

theorem porosity_unchanged:
  assumes "tortuosity env im axis return_im kwargs = (t, Inr f)"
    and "trim_nonpercolating_paths env im axis axis = Inr im"
  shows "res_effective_porosity (v_result f) = res_original_porosity (v_result f) \<and>
     res_original_porosity (v_result f) =
       to_float env (int (length (filter (\<lambda>b. b) (data im)))) /
         to_float env (int (prod_list (shape im)))"
proof -
  note r = tortuosity_returns [OF assms(1)]
  from r(2) assms(2) have "v_im f = im"
    by simp
  then show ?thesis
    by (simp add: r(6,7,14,15) im_sum_def im_size_def)
qed

theorem porosity_unchanged_witness:
  "\<exists>t f. tortuosity chain_env channel 0 True Map.empty = (t, Inr f) \<and>
     trim_nonpercolating_paths chain_env channel 0 0 = Inr channel \<and>
     res_effective_porosity (v_result f) = res_original_porosity (v_result f) \<and>
     res_original_porosity (v_result f) = 3 / 6"
proof -
  from channel_run obtain t f
    where run: "tortuosity chain_env channel 0 True Map.empty = (t, Inr f)"
    by blast
  have same: "trim_nonpercolating_paths chain_env channel 0 0 = Inr channel"
    by (simp add: chain_env_def)
  from porosity_unchanged [OF run same]
  have "res_effective_porosity (v_result f) = res_original_porosity (v_result f)"
    and "res_original_porosity (v_result f) = 3 / 6"
    by (simp_all add: channel_def chain_env_def)
  with run same show ?thesis
    by blast
qed

subsection \<open>The balance of the molar flows\<close>

lemma simulate_chain:
  "\<exists>sim. simulate chain_env slab 0 kwargs =
       ([Network, Phase, SetItem, Algorithm, SetValueBC, SetValueBC, Run, Rate, Rate],
        Inr sim) \<and>
     rate_out sim = - (1 / 2) \<and> rate_in sim = 1 / 2"
  by (simp add: simulate_def open_voxels_slab run_defs chain_defs array_defs
      C_in_def C_out_def Let_def)
    (simp add: slab_def)

lemma simulate_leaky:
  "\<exists>sim. simulate leaky_env slab 0 Map.empty =
       ([Network, Phase, SetItem, Algorithm, SetValueBC, SetValueBC, Run, Rate, Rate],
        Inr sim) \<and>
     rate_out sim = - (1 / 4) \<and> rate_in sim = 1 / 2"
  by (simp add: simulate_def leaky_env_def open_voxels_slab run_defs chain_defs array_defs
      C_in_def C_out_def Let_def)
    (simp add: slab_def)

text \<open>
  C2. Once the filter and the diffusion solve have returned, the function raises the
  mismatch error, and so returns no result, when \<open>np.allclose(-rate_out, rate_in)\<close> is
  false; when it is true, the mismatch error is not raised.
\<close>

theorem rates_mismatch:
  assumes "\<not> int (ndim im) - 1 < axis"
    and "trim_nonpercolating_paths env im axis axis = Inr im1"
    and "simulate env im1 axis kwargs = (t2, Inr sim)"
  shows "(\<not> allclose env (- rate_out sim) (rate_in sim) \<longrightarrow>
        snd (tortuosity env im axis return_im kwargs) = Inl RatesMismatch) \<and>
     (allclose env (- rate_out sim) (rate_in sim) \<longrightarrow>
        snd (tortuosity env im axis return_im kwargs) \<noteq> Inl RatesMismatch)"
proof -
  have sim: "snd (simulate env im1 axis kwargs) = Inr sim"
    by (simp add: assms(3))
  show ?thesis
    using assms(1)
    by (simp add: tortuosity_def Let_def snd_and_then snd_ext snd_or_raise snd_ret snd_raise
        assms(2) sim split: option.splits)
qed

theorem rates_mismatch_witness:
  "\<exists>t2 sim t3 sim'.
     \<not> int (ndim slab) - 1 < 0 \<and>
     trim_nonpercolating_paths leaky_env slab 0 0 = Inr slab \<and>
     simulate leaky_env slab 0 Map.empty = (t2, Inr sim) \<and>
     \<not> allclose leaky_env (- rate_out sim) (rate_in sim) \<and>
     snd (tortuosity leaky_env slab 0 False Map.empty) = Inl RatesMismatch \<and>
     trim_nonpercolating_paths chain_env slab 0 0 = Inr slab \<and>
     simulate chain_env slab 0 Map.empty = (t3, Inr sim') \<and>
     allclose chain_env (- rate_out sim') (rate_in sim') \<and>
     snd (tortuosity chain_env slab 0 False Map.empty) \<noteq> Inl RatesMismatch"
proof -
  have ax: "\<not> int (ndim slab) - 1 < 0"
    by (simp add: ndim_def slab_def)
  have trim1: "trim_nonpercolating_paths leaky_env slab 0 0 = Inr slab"
    and trim2: "trim_nonpercolating_paths chain_env slab 0 0 = Inr slab"
    by (simp_all add: leaky_env_def chain_env_def)
  from simulate_leaky obtain t2 sim
    where s1: "simulate leaky_env slab 0 Map.empty = (t2, Inr sim)"
      and v1: "rate_out sim = - (1 / 4)" "rate_in sim = 1 / 2"
    by blast
  from simulate_chain obtain t3 sim'
    where s2: "simulate chain_env slab 0 Map.empty = (t3, Inr sim')"
      and v2: "rate_out sim' = - (1 / 2)" "rate_in sim' = 1 / 2"
    by blast
  have far: "\<not> allclose leaky_env (- rate_out sim) (rate_in sim)"
    by (simp add: v1 leaky_env_def chain_env_def np_allclose_def)
  have near: "allclose chain_env (- rate_out sim') (rate_in sim')"
    by (simp add: v2 chain_env_def np_allclose_def)
  from rates_mismatch [OF ax trim1 s1, of False] far
  have "snd (tortuosity leaky_env slab 0 False Map.empty) = Inl RatesMismatch"
    by blast
  moreover from rates_mismatch [OF ax trim2 s2, of False] near
  have "snd (tortuosity chain_env slab 0 False Map.empty) \<noteq> Inl RatesMismatch"
    by blast
  ultimately show ?thesis
    using ax trim1 trim2 s1 s2 far near by blast
qed

subsection \<open>The solver's settings\<close>











subsection \<open>Negative axes\<close>





subsection \<open>Exceptions of the delegated libraries\<close>

lemma tortuosity_trim_fails:
  "\<not> int (ndim im) - 1 < axis \<Longrightarrow> trim_nonpercolating_paths env im axis axis = Inl x \<Longrightarrow>
   snd (tortuosity env im axis return_im kwargs) = Inl (Raised x)"
  by (simp add: tortuosity_def Let_def snd_and_then snd_ext)

lemma tortuosity_simulate_fails:
  "\<not> int (ndim im) - 1 < axis \<Longrightarrow> trim_nonpercolating_paths env im axis axis = Inr im1 \<Longrightarrow>
   snd (simulate env im1 axis kwargs) = Inl e \<Longrightarrow>
   snd (tortuosity env im axis return_im kwargs) = Inl e"
  by (simp add: tortuosity_def Let_def snd_and_then snd_ext snd_ret)

lemma simulate_network_fails:
  "CubicTemplate env im 1 = Inl x \<Longrightarrow> snd (simulate env im axis kwargs) = Inl (Raised x)"
  by (simp add: simulate_def snd_and_then snd_ext)

lemma simulate_phase_fails:
  "CubicTemplate env im 1 = Inr nw \<Longrightarrow> Water env nw = Inl x \<Longrightarrow>
   snd (simulate env im axis kwargs) = Inl (Raised x)"
  by (simp add: simulate_def snd_and_then snd_ext)

lemma simulate_setitem_fails:
  "CubicTemplate env im 1 = Inr nw \<Longrightarrow> Water env nw = Inr water \<Longrightarrow>
   phase_setitem env water ''throat.diffusive_conductance'' 1 = Inl x \<Longrightarrow>
   snd (simulate env im axis kwargs) = Inl (Raised x)"
  by (simp add: simulate_def snd_and_then snd_ext)

lemma simulate_algorithm_fails:
  "CubicTemplate env im 1 = Inr nw \<Longrightarrow> Water env nw = Inr water \<Longrightarrow>
   phase_setitem env water ''throat.diffusive_conductance'' 1 = Inr water' \<Longrightarrow>
   FickianDiffusion env nw water' = Inl x \<Longrightarrow>
   snd (simulate env im axis kwargs) = Inl (Raised x)"
  by (simp add: simulate_def snd_and_then snd_ext)

lemma simulate_from_algorithm:
  assumes "CubicTemplate env im 1 = Inr nw" "Water env nw = Inr water"
    "phase_setitem env water ''throat.diffusive_conductance'' 1 = Inr water'"
    "FickianDiffusion env nw water' = Inr fd0"
    "column (pore_coords env nw) axis = Some col"
    "py_index (shape im) axis = Some n"
  shows "snd (simulate env im axis kwargs) =
    snd (and_then (ext SetValueBC (set_value_BC env fd0 (map (\<lambda>c. c \<le> 1) col) C_in)) (\<lambda>fd.
     and_then (ext SetValueBC (set_value_BC env fd
        (map (\<lambda>c. c \<ge> to_float env (int n - 1)) col) C_out)) (\<lambda>fd.
     let fd = fd\<lparr>settings := solver_settings (settings fd) kwargs (pyamg_found env)\<rparr> in
     and_then (ext Run (run env fd)) (\<lambda>fd.
     and_then (ext Rate (rate env fd (map (\<lambda>c. c \<ge> to_float env (int n - 1)) col))) (\<lambda>r_out.
     and_then (or_raise IndexError (py_index r_out 0)) (\<lambda>rate_out.
     and_then (ext Rate (rate env fd (map (\<lambda>c. c \<le> 1) col))) (\<lambda>r_in.
     and_then (or_raise IndexError (py_index r_in 0)) (\<lambda>rate_in.
     ret \<lparr>net = nw, fd = fd, inlets = map (\<lambda>c. c \<le> 1) col,
          outlets = map (\<lambda>c. c \<ge> to_float env (int n - 1)) col,
          rate_out = rate_out, rate_in = rate_in\<rparr>))))))))"
  by (simp add: simulate_def assms Let_def snd_and_then snd_ext snd_or_raise)


lemma simulate_bc_fails:
  assumes "CubicTemplate env im 1 = Inr nw" "Water env nw = Inr water"
    "phase_setitem env water ''throat.diffusive_conductance'' 1 = Inr water'"
    "FickianDiffusion env nw water' = Inr fd0"
    "column (pore_coords env nw) axis = Some col"
    "py_index (shape im) axis = Some n"
  shows "set_value_BC env fd0 (map (\<lambda>c. c \<le> 1) col) C_in = Inl x \<Longrightarrow>
      snd (simulate env im axis kwargs) = Inl (Raised x)"
    and "set_value_BC env fd0 (map (\<lambda>c. c \<le> 1) col) C_in = Inr fd1 \<Longrightarrow>
      set_value_BC env fd1 (map (\<lambda>c. c \<ge> to_float env (int n - 1)) col) C_out = Inl x \<Longrightarrow>
      snd (simulate env im axis kwargs) = Inl (Raised x)"
    and "set_value_BC env fd0 (map (\<lambda>c. c \<le> 1) col) C_in = Inr fd1 \<Longrightarrow>
      set_value_BC env fd1 (map (\<lambda>c. c \<ge> to_float env (int n - 1)) col) C_out = Inr fd2 \<Longrightarrow>
      run env (fd2\<lparr>settings := solver_settings (settings fd2) kwargs (pyamg_found env)\<rparr>)
        = Inl x \<Longrightarrow>
      snd (simulate env im axis kwargs) = Inl (Raised x)"
    and "set_value_BC env fd0 (map (\<lambda>c. c \<le> 1) col) C_in = Inr fd1 \<Longrightarrow>
      set_value_BC env fd1 (map (\<lambda>c. c \<ge> to_float env (int n - 1)) col) C_out = Inr fd2 \<Longrightarrow>
      run env (fd2\<lparr>settings := solver_settings (settings fd2) kwargs (pyamg_found env)\<rparr>)
        = Inr fd3 \<Longrightarrow>
      rate env fd3 (map (\<lambda>c. c \<ge> to_float env (int n - 1)) col) = Inl x \<Longrightarrow>
      snd (simulate env im axis kwargs) = Inl (Raised x)"
    and "set_value_BC env fd0 (map (\<lambda>c. c \<le> 1) col) C_in = Inr fd1 \<Longrightarrow>
      set_value_BC env fd1 (map (\<lambda>c. c \<ge> to_float env (int n - 1)) col) C_out = Inr fd2 \<Longrightarrow>
      run env (fd2\<lparr>settings := solver_settings (settings fd2) kwargs (pyamg_found env)\<rparr>)
        = Inr fd3 \<Longrightarrow>
      rate env fd3 (map (\<lambda>c. c \<ge> to_float env (int n - 1)) col) = Inr (r # rs) \<Longrightarrow>
      rate env fd3 (map (\<lambda>c. c \<le> 1) col) = Inl x \<Longrightarrow>
      snd (simulate env im axis kwargs) = Inl (Raised x)"
  unfolding simulate_from_algorithm [OF assms]
  by (simp_all add: Let_def snd_and_then snd_ext snd_or_raise py_index_def py_norm_def)

text \<open>
  C8. An exception raised by a delegated library leaves the function as it is: whichever
  of the calls (the filter, the network, the phase and its conductance, the algorithm, the
  two boundary conditions, the solve, the two rates) is the first to raise \<open>x\<close>, the
  outcome of the run is \<open>x\<close>, neither caught nor wrapped.
\<close>

theorem exceptions_propagate:
  assumes "\<not> int (ndim im) - 1 < axis"
  shows
   "(trim_nonpercolating_paths env im axis axis = Inl x \<longrightarrow>
       snd (tortuosity env im axis return_im kwargs) = Inl (Raised x)) \<and>
    (\<forall>im1. trim_nonpercolating_paths env im axis axis = Inr im1 \<longrightarrow>
      (CubicTemplate env im1 1 = Inl x \<longrightarrow>
         snd (tortuosity env im axis return_im kwargs) = Inl (Raised x)) \<and>
      (\<forall>net. CubicTemplate env im1 1 = Inr net \<longrightarrow>
        (Water env net = Inl x \<longrightarrow>
           snd (tortuosity env im axis return_im kwargs) = Inl (Raised x)) \<and>
        (\<forall>water. Water env net = Inr water \<longrightarrow>
          (phase_setitem env water ''throat.diffusive_conductance'' 1 = Inl x \<longrightarrow>
             snd (tortuosity env im axis return_im kwargs) = Inl (Raised x)) \<and>
          (\<forall>water'. phase_setitem env water ''throat.diffusive_conductance'' 1 = Inr water' \<longrightarrow>
            (FickianDiffusion env net water' = Inl x \<longrightarrow>
               snd (tortuosity env im axis return_im kwargs) = Inl (Raised x)) \<and>
            (\<forall>fd0 col n. FickianDiffusion env net water' = Inr fd0 \<longrightarrow>
               column (pore_coords env net) axis = Some col \<longrightarrow>
               py_index (shape im1) axis = Some n \<longrightarrow>
              (set_value_BC env fd0 (map (\<lambda>c. c \<le> 1) col) C_in = Inl x \<longrightarrow>
                 snd (tortuosity env im axis return_im kwargs) = Inl (Raised x)) \<and>
              (\<forall>fd1. set_value_BC env fd0 (map (\<lambda>c. c \<le> 1) col) C_in = Inr fd1 \<longrightarrow>
                (set_value_BC env fd1 (map (\<lambda>c. c \<ge> to_float env (int n - 1)) col) C_out
                   = Inl x \<longrightarrow>
                   snd (tortuosity env im axis return_im kwargs) = Inl (Raised x)) \<and>
                (\<forall>fd2. set_value_BC env fd1 (map (\<lambda>c. c \<ge> to_float env (int n - 1)) col) C_out
                   = Inr fd2 \<longrightarrow>
                  (run env (fd2\<lparr>settings :=
                       solver_settings (settings fd2) kwargs (pyamg_found env)\<rparr>) = Inl x \<longrightarrow>
                     snd (tortuosity env im axis return_im kwargs) = Inl (Raised x)) \<and>
                  (\<forall>fd3. run env (fd2\<lparr>settings :=
                       solver_settings (settings fd2) kwargs (pyamg_found env)\<rparr>) = Inr fd3 \<longrightarrow>
                    (rate env fd3 (map (\<lambda>c. c \<ge> to_float env (int n - 1)) col) = Inl x \<longrightarrow>
                       snd (tortuosity env im axis return_im kwargs) = Inl (Raised x)) \<and>
                    (\<forall>r rs. rate env fd3 (map (\<lambda>c. c \<ge> to_float env (int n - 1)) col)
                         = Inr (r # rs) \<longrightarrow>
                       rate env fd3 (map (\<lambda>c. c \<le> 1) col) = Inl x \<longrightarrow>
                       snd (tortuosity env im axis return_im kwargs) = Inl (Raised x))))))))))"
proof -
  note up = tortuosity_simulate_fails [OF assms, of env _ kwargs _ return_im]
  show ?thesis
    apply (intro conjI allI impI)
    subgoal by (rule tortuosity_trim_fails [OF assms])
    subgoal by (rule up, assumption, rule simulate_network_fails)
    subgoal by (rule up, assumption, rule simulate_phase_fails; assumption)
    subgoal by (rule up, assumption, rule simulate_setitem_fails; assumption)
    subgoal by (rule up, assumption, rule simulate_algorithm_fails; assumption)
    subgoal by (rule up, assumption, rule simulate_bc_fails(1); assumption)
    subgoal by (rule up, assumption, rule simulate_bc_fails(2); assumption)
    subgoal by (rule up, assumption, rule simulate_bc_fails(3); assumption)
    subgoal by (rule up, assumption, rule simulate_bc_fails(4); assumption)
    subgoal by (rule up, assumption, rule simulate_bc_fails(5); assumption)
    done
qed

lemma slab_facts: "ndim slab = 2" "shape slab = [3, 1]"
  by (simp_all add: ndim_def slab_def)

lemmas broken_defs = broken_env_def chain_env_def chain_coords_def chain_rate_def
  open_voxels_slab slab_facts column_def py_index_def py_norm_def C_in_def C_out_def

theorem exceptions_propagate_witness:
  "snd (tortuosity (broken_env 0) slab 0 False Map.empty) = Inl (Raised ''trim'') \<and>
   snd (tortuosity (broken_env 1) slab 0 False Map.empty) = Inl (Raised ''network'') \<and>
   snd (tortuosity (broken_env 2) slab 0 False Map.empty) = Inl (Raised ''phase'') \<and>
   snd (tortuosity (broken_env 3) slab 0 False Map.empty) = Inl (Raised ''conductance'') \<and>
   snd (tortuosity (broken_env 4) slab 0 False Map.empty) = Inl (Raised ''algorithm'') \<and>
   snd (tortuosity (broken_env 5) slab 0 False Map.empty) = Inl (Raised ''inlet'') \<and>
   snd (tortuosity (broken_env 6) slab 0 False Map.empty) = Inl (Raised ''outlet'') \<and>
   snd (tortuosity (broken_env 7) slab 0 False Map.empty) = Inl (Raised ''singular matrix'') \<and>
   snd (tortuosity (broken_env 8) slab 0 False Map.empty) = Inl (Raised ''rate out'') \<and>
   snd (tortuosity (broken_env 9) slab 0 False Map.empty) = Inl (Raised ''rate in'')"
proof -
  have ok: "\<not> int (ndim slab) - 1 < 0"
    by (simp add: slab_facts)
  note p = exceptions_propagate [OF ok, where return_im = False and kwargs = Map.empty]
  have "snd (tortuosity (broken_env 0) slab 0 False Map.empty) = Inl (Raised ''trim'')"
    using p [of "broken_env 0" "''trim''"] by (simp add: broken_defs)
  moreover
  have "snd (tortuosity (broken_env 1) slab 0 False Map.empty) = Inl (Raised ''network'')"
    using p [of "broken_env 1" "''network''"] by (simp add: broken_defs)
  moreover
  have "snd (tortuosity (broken_env 2) slab 0 False Map.empty) = Inl (Raised ''phase'')"
    using p [of "broken_env 2" "''phase''"] by (simp add: broken_defs)
  moreover
  have "snd (tortuosity (broken_env 3) slab 0 False Map.empty) = Inl (Raised ''conductance'')"
    using p [of "broken_env 3" "''conductance''"] by (simp add: broken_defs)
  moreover
  have "snd (tortuosity (broken_env 4) slab 0 False Map.empty) = Inl (Raised ''algorithm'')"
    using p [of "broken_env 4" "''algorithm''"] by (simp add: broken_defs)
  moreover
  have "snd (tortuosity (broken_env 5) slab 0 False Map.empty) = Inl (Raised ''inlet'')"
    using p [of "broken_env 5" "''inlet''"] by (simp add: broken_defs)
  moreover
  have "snd (tortuosity (broken_env 6) slab 0 False Map.empty) = Inl (Raised ''outlet'')"
    using p [of "broken_env 6" "''outlet''"] by (simp add: broken_defs)
  moreover
  have "snd (tortuosity (broken_env 7) slab 0 False Map.empty) =
      Inl (Raised ''singular matrix'')"
    using p [of "broken_env 7" "''singular matrix''"] by (simp add: broken_defs)
  moreover
  have "snd (tortuosity (broken_env 8) slab 0 False Map.empty) = Inl (Raised ''rate out'')"
    using p [of "broken_env 8" "''rate out''"] by (simp add: broken_defs)
  moreover
  have "snd (tortuosity (broken_env 9) slab 0 False Map.empty) = Inl (Raised ''rate in'')"
    using p [of "broken_env 9" "''rate in''"] by (simp add: broken_defs)
  ultimately show ?thesis
    by blast
qed

subsection \<open>The concentration image\<close>

lemma length_fold_update:
  "length (fold (\<lambda>(p, v) c. c[p := v]) ps c) = length c"
  by (induction ps arbitrary: c) (auto split: prod.splits)

lemma fold_update_other:
  "p \<notin> fst ` set ps \<Longrightarrow> fold (\<lambda>(q, v) c. c[q := v]) ps c ! p = c ! p"
  by (induction ps arbitrary: c) (auto split: prod.splits)

lemma fold_update_last:
  assumes "k < length ps" and "fst (ps ! k) < length c"
    and "\<forall>j. k < j \<and> j < length ps \<longrightarrow> fst (ps ! j) \<noteq> fst (ps ! k)"
  shows "fold (\<lambda>(q, v) c. c[q := v]) ps c ! fst (ps ! k) = snd (ps ! k)"
  using assms
proof (induction ps arbitrary: c k)
  case Nil
  then show ?case by simp
next
  case (Cons a ps)
  obtain q v where a: "a = (q, v)"
    by (cases a)
  show ?case
  proof (cases k)
    case 0
    have "q \<notin> fst ` set ps"
    proof
      assume "q \<in> fst ` set ps"
      then obtain j where "j < length ps" "fst (ps ! j) = q"
        by (auto simp: in_set_conv_nth)
      with Cons.prems(3) 0 a show False
        by (auto dest: spec [of _ "Suc j"])
    qed
    then show ?thesis
      using Cons.prems(2) 0 a by (simp add: fold_update_other)
  next
    case (Suc k')
    have "fold (\<lambda>(q, v) c. c[q := v]) ps (c[q := v]) ! fst (ps ! k') = snd (ps ! k')"
    proof (rule Cons.IH)
      show "k' < length ps"
        using Cons.prems(1) Suc by simp
      show "fst (ps ! k') < length (c[q := v])"
        using Cons.prems(2) Suc by simp
      show "\<forall>j. k' < j \<and> j < length ps \<longrightarrow> fst (ps ! j) \<noteq> fst (ps ! k')"
        using Cons.prems(3) Suc by (auto dest: spec [of _ "Suc j" for j])
    qed
    then show ?thesis
      using Suc a by simp
  qed
qed


lemma assign_at_fold:
  assumes "assign_at conc idx vals = Some r"
  defines "ps \<equiv> (if length vals = length idx
      then map (\<lambda>(i, v). (wrap (length conc) i, v)) (zip idx vals)
      else map (\<lambda>i. (wrap (length conc) i, vals ! 0)) idx)"
  shows "r = fold (\<lambda>(q, v) c. c[q := v]) ps conc"
    and "length ps = length idx"
    and "\<forall>k < length idx. fst (ps ! k) = wrap (length conc) (idx ! k) \<and>
           snd (ps ! k) = vals ! (if length vals = length idx then k else 0)"
    and "\<forall>i \<in> set idx. - int (length conc) \<le> i \<and> i < int (length conc)"
proof -
  have a: "(\<lambda>(q, v) c. c[q := v]) \<circ> (\<lambda>(i, v). (wrap (length conc) i, v)) =
      (\<lambda>(i, v) c. c[wrap (length conc) i := v])"
    and b: "(\<lambda>(q, v) c. c[q := v]) \<circ> (\<lambda>i. (wrap (length conc) i, vals ! 0)) =
      (\<lambda>i c. c[wrap (length conc) i := vals ! 0])"
    by (auto simp: fun_eq_iff)
  show "r = fold (\<lambda>(q, v) c. c[q := v]) ps conc"
    using assms(1)
    by (auto simp: assign_at_def Let_def ps_def fold_map a b split: if_splits)
  show "length ps = length idx"
    using assms(1) by (auto simp: assign_at_def Let_def ps_def split: if_splits)
  show "\<forall>k < length idx. fst (ps ! k) = wrap (length conc) (idx ! k) \<and>
           snd (ps ! k) = vals ! (if length vals = length idx then k else 0)"
    by (auto simp: ps_def)
  show "\<forall>i \<in> set idx. - int (length conc) \<le> i \<and> i < int (length conc)"
    using assms(1) by (auto simp: assign_at_def Let_def split: if_splits)
qed

lemma wrap_less:
  "- int n \<le> i \<Longrightarrow> i < int n \<Longrightarrow> wrap n i < n"
  by (auto simp: wrap_def)

lemma assign_at_Some:
  assumes "assign_at conc idx vals = Some r"
  shows "length r = length conc"
    and "\<And>i. i \<notin> wrap (length conc) ` set idx \<Longrightarrow> r ! i = conc ! i"
    and "\<And>k. k < length idx \<Longrightarrow>
       \<forall>j. k < j \<and> j < length idx \<longrightarrow>
         wrap (length conc) (idx ! j) \<noteq> wrap (length conc) (idx ! k) \<Longrightarrow>
       r ! wrap (length conc) (idx ! k) =
         vals ! (if length vals = length idx then k else 0)"
proof -
  define ps where "ps = (if length vals = length idx
      then map (\<lambda>(i, v). (wrap (length conc) i, v)) (zip idx vals)
      else map (\<lambda>i. (wrap (length conc) i, vals ! 0)) idx)"
  note f = assign_at_fold [OF assms, folded ps_def]
  show "length r = length conc"
    by (simp add: f(1) length_fold_update)
  show "r ! i = conc ! i" if "i \<notin> wrap (length conc) ` set idx" for i
  proof -
    have "i \<notin> fst ` set ps"
    proof
      assume "i \<in> fst ` set ps"
      then obtain k where "k < length ps" "fst (ps ! k) = i"
        by (auto simp: in_set_conv_nth)
      with f(2,3) have "k < length idx" "i = wrap (length conc) (idx ! k)"
        by auto
      with that show False
        by auto
    qed
    then show ?thesis
      by (simp add: f(1) fold_update_other)
  qed
  show "r ! wrap (length conc) (idx ! k) =
         vals ! (if length vals = length idx then k else 0)"
    if k: "k < length idx"
      and last: "\<forall>j. k < j \<and> j < length idx \<longrightarrow>
         wrap (length conc) (idx ! j) \<noteq> wrap (length conc) (idx ! k)"
    for k
  proof -
    have "idx ! k \<in> set idx"
      using k by simp
    with f(4) have "wrap (length conc) (idx ! k) < length conc"
      by (auto intro: wrap_less)
    with f(3) k have bound: "fst (ps ! k) < length conc"
      by simp
    have "\<forall>j. k < j \<and> j < length ps \<longrightarrow> fst (ps ! j) \<noteq> fst (ps ! k)"
      using last f(2,3) k by auto
    from fold_update_last [OF _ bound this] k f(2)
    have "fold (\<lambda>(q, v) c. c[q := v]) ps conc ! fst (ps ! k) = snd (ps ! k)"
      by simp
    with f(1,3) k show ?thesis
      by simp
  qed
qed


text \<open>
  C5. Of a run that returns, the network is the one built on the filtered image and the
  algorithm is the one the solve returned, after the two boundary conditions on the inlet
  and outlet pores. With \<open>return_im\<close> false the image of the result is None. With
  \<open>return_im\<close> true, and a filter that returns an image of the shape of its input, the
  image of the result has the shape of the input image, one value for each voxel, the
  value zero at every voxel that is not among the \<open>pore.template_indices\<close> of that
  network, and at the voxel of each pore the concentration that solved algorithm holds for
  the pore (a single concentration being broadcast to all of them).
\<close>

theorem concentration_image:
  assumes "tortuosity env im axis return_im kwargs = (t, Inr f)"
    and "\<And>im1. trim_nonpercolating_paths env im axis axis = Inr im1 \<Longrightarrow> shape im1 = shape im"
  shows "(\<exists>col n water water' fd0 fd1 fd2.
        trim_nonpercolating_paths env im axis axis = Inr (v_im f) \<and>
        CubicTemplate env (v_im f) 1 = Inr (net (v_sim f)) \<and>
        Water env (net (v_sim f)) = Inr water \<and>
        phase_setitem env water ''throat.diffusive_conductance'' 1 = Inr water' \<and>
        FickianDiffusion env (net (v_sim f)) water' = Inr fd0 \<and>
        column (pore_coords env (net (v_sim f))) axis = Some col \<and>
        py_index (shape (v_im f)) axis = Some n \<and>
        inlets (v_sim f) = map (\<lambda>c. c \<le> 1) col \<and>
        outlets (v_sim f) = map (\<lambda>c. c \<ge> to_float env (int n - 1)) col \<and>
        set_value_BC env fd0 (inlets (v_sim f)) C_in = Inr fd1 \<and>
        set_value_BC env fd1 (outlets (v_sim f)) C_out = Inr fd2 \<and>
        run env (fd2\<lparr>settings := solver_settings (settings fd2) kwargs (pyamg_found env)\<rparr>)
          = Inr (fd (v_sim f))) \<and>
     (\<not> return_im \<longrightarrow> res_image (v_result f) = None) \<and>
     (return_im \<longrightarrow>
        (\<exists>arr. res_image (v_result f) = Some arr \<and>
           shape arr = shape im \<and>
           length (data arr) = im_size im \<and>
           (\<forall>i < im_size im.
              i \<notin> wrap (im_size im) ` set (template_indices env (net (v_sim f))) \<longrightarrow>
              data arr ! i = 0) \<and>
           (\<forall>k < length (template_indices env (net (v_sim f))).
              (\<forall>j. k < j \<and> j < length (template_indices env (net (v_sim f))) \<longrightarrow>
                 wrap (im_size im) (template_indices env (net (v_sim f)) ! j) \<noteq>
                 wrap (im_size im) (template_indices env (net (v_sim f)) ! k)) \<longrightarrow>
              data arr ! wrap (im_size im) (template_indices env (net (v_sim f)) ! k) =
                concentration env (fd (v_sim f)) !
                  (if length (concentration env (fd (v_sim f))) =
                      length (template_indices env (net (v_sim f)))
                   then k else 0))))"
proof -
  note r = tortuosity_returns [OF assms(1)]
  from assms(2) [OF r(2)] have sh: "shape (v_im f) = shape im"
    by simp
  then have sz: "im_size (v_im f) = im_size im"
    by (simp add: im_size_def)
  have "\<exists>arr. res_image (v_result f) = Some arr \<and>
           shape arr = shape im \<and>
           length (data arr) = im_size im \<and>
           (\<forall>i < im_size im.
              i \<notin> wrap (im_size im) ` set (template_indices env (net (v_sim f))) \<longrightarrow>
              data arr ! i = 0) \<and>
           (\<forall>k < length (template_indices env (net (v_sim f))).
              (\<forall>j. k < j \<and> j < length (template_indices env (net (v_sim f))) \<longrightarrow>
                 wrap (im_size im) (template_indices env (net (v_sim f)) ! j) \<noteq>
                 wrap (im_size im) (template_indices env (net (v_sim f)) ! k)) \<longrightarrow>
              data arr ! wrap (im_size im) (template_indices env (net (v_sim f)) ! k) =
                concentration env (fd (v_sim f)) !
                  (if length (concentration env (fd (v_sim f))) =
                      length (template_indices env (net (v_sim f)))
                   then k else 0))"
    if return_im
  proof -
    from r(17) [OF that] sz sh obtain conc
      where conc: "assign_at (replicate (im_size im) 0)
          (template_indices env (net (v_sim f))) (concentration env (fd (v_sim f))) = Some conc"
        and img: "res_image (v_result f) = Some \<lparr>shape = shape im, data = conc\<rparr>"
      by auto
    note a = assign_at_Some [OF conc, simplified]
    show ?thesis
      using img a by auto
  qed
  moreover have "(\<exists>col n water water' fd0 fd1 fd2.
          trim_nonpercolating_paths env im axis axis = Inr (v_im f) \<and>
          CubicTemplate env (v_im f) 1 = Inr (net (v_sim f)) \<and>
          Water env (net (v_sim f)) = Inr water \<and>
          phase_setitem env water ''throat.diffusive_conductance'' 1 = Inr water' \<and>
          FickianDiffusion env (net (v_sim f)) water' = Inr fd0 \<and>
          column (pore_coords env (net (v_sim f))) axis = Some col \<and>
          py_index (shape (v_im f)) axis = Some n \<and>
          inlets (v_sim f) = map (\<lambda>c. c \<le> 1) col \<and>
          outlets (v_sim f) = map (\<lambda>c. c \<ge> to_float env (int n - 1)) col \<and>
          set_value_BC env fd0 (inlets (v_sim f)) C_in = Inr fd1 \<and>
          set_value_BC env fd1 (outlets (v_sim f)) C_out = Inr fd2 \<and>
          run env (fd2\<lparr>settings := solver_settings (settings fd2) kwargs (pyamg_found env)\<rparr>)
            = Inr (fd (v_sim f)))"
  proof -
    from r(3) obtain t2 where s: "simulate env (v_im f) axis kwargs = (t2, Inr (v_sim f))"
      by blast
    from simulate_returns(2) [OF s] obtain water water' fd0 fd1 fd2
      where "Water env (net (v_sim f)) = Inr water"
        "phase_setitem env water ''throat.diffusive_conductance'' 1 = Inr water'"
        "FickianDiffusion env (net (v_sim f)) water' = Inr fd0"
        "set_value_BC env fd0 (inlets (v_sim f)) C_in = Inr fd1"
        "set_value_BC env fd1 (outlets (v_sim f)) C_out = Inr fd2"
        "run env (fd2\<lparr>settings := solver_settings (settings fd2) kwargs (pyamg_found env)\<rparr>)
          = Inr (fd (v_sim f))"
      by blast
    moreover from simulate_returns(3) [OF s] obtain col n
      where "column (pore_coords env (net (v_sim f))) axis = Some col"
        "py_index (shape (v_im f)) axis = Some n"
        "inlets (v_sim f) = map (\<lambda>c. c \<le> 1) col"
        "outlets (v_sim f) = map (\<lambda>c. c \<ge> to_float env (int n - 1)) col"
      by blast
    ultimately show ?thesis
      using r(2) simulate_returns(1) [OF s] by blast
  qed
  ultimately show ?thesis
    using r(18) by blast
qed


theorem concentration_image_witness:
  "\<exists>t f arr t' f'.
     tortuosity chain_env channel 0 True Map.empty = (t, Inr f) \<and>
     trim_nonpercolating_paths chain_env channel 0 0 = Inr channel \<and>
     res_image (v_result f) = Some arr \<and>
     shape arr = shape channel \<and>
     length (data arr) = im_size channel \<and>
     arr = \<lparr>shape = [3, 2], data = [1, 0, 1 / 2, 0, 0, 0]\<rparr> \<and>
     CubicTemplate chain_env channel 1 = Inr (net (v_sim f)) \<and>
     net (v_sim f) = [0, 2, 4] \<and>
     concentration chain_env (fd (v_sim f)) = [1, 1 / 2, 0] \<and>
     tortuosity chain_env slab 0 False Map.empty = (t', Inr f') \<and>
     res_image (v_result f') = None"
proof -
  from channel_run obtain t f
    where run: "tortuosity chain_env channel 0 True Map.empty = (t, Inr f)"
      and res: "res_image (v_result f) =
        Some \<lparr>shape = [3, 2], data = [1, 0, 1 / 2, 0, 0, 0]\<rparr>"
    by fastforce
  from slab_run obtain t' f'
    where run': "tortuosity chain_env slab 0 False Map.empty = (t', Inr f')"
    by blast
  have keep: "shape im1 = shape im"
    if "trim_nonpercolating_paths chain_env im 0 0 = Inr im1" for im im1
    using that by (simp add: chain_env_def)
  from concentration_image [OF run keep] obtain arr
    where arr: "res_image (v_result f) = Some arr" "shape arr = shape channel"
      "length (data arr) = im_size channel"
    by auto
  from concentration_image [OF run keep]
  have "trim_nonpercolating_paths chain_env channel 0 0 = Inr (v_im f)"
    and "CubicTemplate chain_env (v_im f) 1 = Inr (net (v_sim f))"
    by blast+
  then have nw: "CubicTemplate chain_env channel 1 = Inr (net (v_sim f))"
    "net (v_sim f) = [0, 2, 4]"
    by (auto simp: chain_env_def open_voxels_channel)
  have conc: "concentration chain_env (fd (v_sim f)) = [1, 1 / 2, 0]"
    by (simp add: chain_env_def)
  from concentration_image [OF run' keep] have none: "res_image (v_result f') = None"
    by simp
  from arr(1) res have "arr = \<lparr>shape = [3, 2], data = [1, 0, 1 / 2, 0, 0, 0]\<rparr>"
    by simp
  moreover have "trim_nonpercolating_paths chain_env channel 0 0 = Inr channel"
    by (simp add: chain_env_def)
  ultimately show ?thesis
    using run run' arr none nw conc by blast
qed

subsection \<open>The fully open slab\<close>

text \<open>
  C7. In a fully open slab every pore of the first layer holds the inlet concentration
  and every pore of the last layer the outlet concentration (the inlets are the pores at
  coordinate at most 1, the outlets those at coordinate at least \<open>L - 1\<close>, and the pores
  sit at 0.5, 1.5, ...). Between them lie \<open>L - 1\<close> throats of conductance 1, so the
  steady state carries \<open>(C_in - C_out) / (L - 1)\<close> through each of the \<open>A\<close> columns, and
  that flow is what an exact solve reports for the inlets. Line 82 divides by \<open>L\<close>
  instead: with the exact flow the function returns \<open>1 - 1 / L\<close>, which is not 1 within
  the tolerance of \<open>np.allclose\<close> for any slab of at most 10000 layers.
\<close>

theorem open_slab_tortuosity:
  fixes env :: "(real, 'x, 'net, 'ph, 'fd) env"
  assumes run: "tortuosity env im axis return_im kwargs = (t, Inr f)"
    and exact: "to_float env = of_int"
    and full: "data im = replicate (im_size im) True" "0 < im_size im"
    and same: "trim_nonpercolating_paths env im axis axis = Inr im"
    and long: "2 \<le> v_L f"
    and flow: "rate_in (v_sim f) =
      real (prod_list (shape im)) / real (v_L f) / (real (v_L f) - 1) * (C_in - C_out)"
  shows "res_tortuosity (v_result f) = 1 - 1 / real (v_L f) \<and>
     (v_L f \<le> 10000 \<longrightarrow> \<not> np_allclose (res_tortuosity (v_result f)) 1)"
proof -
  note r = tortuosity_returns [OF run]
  from r(2) same have im: "v_im f = im"
    by simp
  define L where "L = real (v_L f)"
  define P where "P = real (prod_list (shape im))"
  have L: "2 \<le> L" and P: "0 < P"
    using long full(2) by (simp_all add: L_def P_def im_size_def)
  have eps: "v_eps f = 1"
    using full by (simp add: r(7) im exact im_sum_def)
  have "v_Deff f = (P / L / (L - 1)) / (P / L / L)"
    by (simp add: r(9,10,11,8) flow im exact C_in_def C_out_def L_def P_def)
  also have "\<dots> = L / (L - 1)"
    using L P by (simp add: field_simps)
  finally have "res_tortuosity (v_result f) = 1 / (L / (L - 1))"
    by (simp add: r(13,12) eps)
  also have "\<dots> = 1 - 1 / L"
    using L by (simp add: field_simps)
  finally have tau: "res_tortuosity (v_result f) = 1 - 1 / L" .
  have "\<not> np_allclose (res_tortuosity (v_result f)) 1" if "v_L f \<le> 10000"
  proof -
    have "L \<le> 10000"
      using that by (simp add: L_def)
    then have "10000 \<le> 100000000 / L"
      using L by (simp add: field_simps)
    then show ?thesis
      using L by (simp add: tau np_allclose_def)
  qed
  then show ?thesis
    using tau by (simp add: L_def)
qed

theorem open_slab_tortuosity_witness:
  "\<exists>t f. tortuosity chain_env slab 0 False Map.empty = (t, Inr f) \<and>
     to_float chain_env = of_int \<and>
     data slab = replicate (im_size slab) True \<and> 0 < im_size slab \<and>
     trim_nonpercolating_paths chain_env slab 0 0 = Inr slab \<and>
     v_L f = 3 \<and>
     rate_in (v_sim f) = 1 / 2 \<and>
     res_tortuosity (v_result f) = 2 / 3 \<and>
     \<not> np_allclose (res_tortuosity (v_result f)) 1"
proof -
  from slab_run obtain t f
    where run: "tortuosity chain_env slab 0 False Map.empty = (t, Inr f)"
      and vals: "v_im f = slab" "rate_in (v_sim f) = 1 / 2"
    by blast
  have exact: "to_float chain_env = of_int"
    and same: "trim_nonpercolating_paths chain_env slab 0 0 = Inr slab"
    by (simp_all add: chain_env_def)
  have full: "data slab = replicate (im_size slab) True" "0 < im_size slab"
    by (simp_all add: slab_def im_size_def numeral_3_eq_3)
  from tortuosity_returns(5) [OF run] have L: "v_L f = 3"
    by (simp add: vals slab_def py_index_def py_norm_def)
  have long: "2 \<le> v_L f"
    by (simp add: L)
  have flow: "rate_in (v_sim f) =
      real (prod_list (shape slab)) / real (v_L f) / (real (v_L f) - 1) * (C_in - C_out)"
    by (simp add: vals L slab_def C_in_def C_out_def)
  from open_slab_tortuosity [OF run exact full same long flow]
  have "res_tortuosity (v_result f) = 2 / 3"
    and "\<not> np_allclose (res_tortuosity (v_result f)) 1"
    by (simp_all add: L)
  then show ?thesis
    using run exact full same L vals by blast
qed

subsection \<open>The formation factor\<close>

lemmas round64_eval = round64_def ilog2_def pow2_def round_even_def bit_length.simps Let_def
  f64_zero_def f64_inf_def

lemmas f64_ops = zero_float64_def one_float64_def minus_float64_def uminus_float64_def
  times_float64_def divide_float64_def less_eq_float64_def less_float64_def f64_minus_def
  f64_less_def f64_allclose_def f64_plus_def f64_times_def f64_divide_def f64_less_eq_def

lemma open_voxels_comb: "open_voxels comb = [0, 2, 4, 5, 7, 9, 10, 12, 14, 15, 17, 19]"
  by code_simp

lemma comb_facts: "shape comb = [4, 5]" "im_sum comb = 12"
  by (simp_all add: comb_def im_sum_def numeral_eq_Suc)

lemma comb_run:
  "returned (tortuosity float_env comb 0 False Map.empty) =
     Some \<lparr>res_tortuosity = Finite (6755399441055743 / 9007199254740992),
       res_effective_porosity = Finite (5404319552844595 / 9007199254740992),
       res_original_porosity = Finite (5404319552844595 / 9007199254740992),
       res_formation_factor = Finite (5 / 4), res_image = None\<rparr>"
  by (simp add: returned_def tortuosity_def simulate_def open_voxels_comb comb_facts
      and_then_def ext_def or_raise_def ret_def raise_def
      float_env_def comb_coords_def comb_rate_def
      py_index_def py_norm_def column_def im_size_def ndim_def
      C_in_def C_out_def f64_ops round64_eval)

lemma comb_product:
  "Finite (5 / 4) * Finite (5404319552844595 / 9007199254740992) = Finite (3 / 4)"
  by (simp add: f64_ops round64_eval)

text \<open>
  C6, as stated, fails in float64: on the comb image, with the inlet flow 1, the function
  returns the formation factor 1.25, the effective porosity 0.6 (the float64 nearest to
  it) and the tortuosity 0.7499999999999999, while the product of the first two is 0.75.
\<close>

theorem formation_factor_product_counterexample:
  "returned (tortuosity float_env comb 0 False Map.empty) =
     Some \<lparr>res_tortuosity = Finite (6755399441055743 / 9007199254740992),
       res_effective_porosity = Finite (5404319552844595 / 9007199254740992),
       res_original_porosity = Finite (5404319552844595 / 9007199254740992),
       res_formation_factor = Finite (5 / 4), res_image = None\<rparr> \<and>
   Finite (5 / 4) * Finite (5404319552844595 / 9007199254740992) = Finite (3 / 4) \<and>
   Finite (3 / 4) \<noteq> Finite (6755399441055743 / 9007199254740992)"
  using comb_run comb_product by simp

text \<open>
  In exact arithmetic, and wherever \<open>1 / y * x = x / y\<close> holds of the numbers, the
  formation factor times the effective porosity is the tortuosity.
\<close>

lemma formation_factor_exact:
  fixes env :: "('a::{zero,one,minus,uminus,times,inverse,ord}, 'x, 'net, 'ph, 'fd) env"
  assumes "tortuosity env im axis return_im kwargs = (t, Inr f)"
    and "\<forall>x y :: 'a. 1 / y * x = x / y"
  shows "res_formation_factor (v_result f) * res_effective_porosity (v_result f) =
    res_tortuosity (v_result f)"
proof -
  note r = tortuosity_returns [OF assms(1)]
  show ?thesis
    using assms(2) by (simp add: r(12,13,14,16))
qed

text \<open>
  The rounding of float64: the number of bits, the exponent and the nearest integer are
  what their names say, so a rounding to a normal value is off by at most \<open>2 ^ -53\<close> of
  that value.
\<close>

lemma bit_length_nonneg: "0 \<le> bit_length n"
proof (induction n rule: bit_length.induct)
  case (1 n)
  then show ?case
    by (subst bit_length.simps) auto
qed

lemma bit_length_bounds:
  "0 < n \<Longrightarrow> 2 ^ nat (bit_length n - 1) \<le> n \<and> n < 2 ^ nat (bit_length n)"
proof (induction n rule: bit_length.induct)
  case (1 n)
  show ?case
  proof (cases "n = 1")
    case True
    have "bit_length 1 = 1"
      by (simp add: bit_length.simps)
    with True show ?thesis
      by simp
  next
    case False
    with \<open>0 < n\<close> have pos: "0 < n div 2"
      by simp
    let ?k = "bit_length (n div 2)"
    from 1 pos have ih: "2 ^ nat (?k - 1) \<le> n div 2" "n div 2 < 2 ^ nat ?k"
      by simp_all
    have k: "1 \<le> ?k"
      using pos bit_length_nonneg [of "n div 2 div 2"]
      by (subst bit_length.simps) simp
    have bl: "bit_length n = 1 + ?k"
      using \<open>0 < n\<close> by (subst bit_length.simps) simp
    from k have suc: "nat ?k = Suc (nat (?k - 1))" "nat (1 + ?k) = Suc (nat ?k)"
      by simp_all
    have "(2::int) ^ nat ?k = 2 * 2 ^ nat (?k - 1)"
      by (simp add: suc(1))
    also have "\<dots> \<le> 2 * (n div 2)"
      using ih(1) by simp
    also have "\<dots> \<le> n"
      by simp
    finally have lo: "2 ^ nat ?k \<le> n" .
    have "n < 2 * (n div 2 + 1)"
      by simp
    also have "\<dots> \<le> 2 * 2 ^ nat ?k"
      using ih(2) by simp
    finally have hi: "n < 2 ^ nat (1 + ?k)"
      by (simp add: suc(2))
    from lo hi show ?thesis
      by (simp add: bl)
  qed
qed

lemma pow2_powi: "pow2 e = 2 powi e"
  by (simp add: pow2_def power_int_def field_simps)

lemma pow2_pos: "0 < pow2 e"
  by (simp add: pow2_powi)

lemma pow2_add: "pow2 (a + b) = pow2 a * pow2 b"
  by (simp add: pow2_powi power_int_add)

lemma pow2_nat: "0 \<le> e \<Longrightarrow> pow2 e = 2 ^ nat e"
  by (simp add: pow2_def)

lemma pow2_neg: "pow2 (- e) = 1 / pow2 e"
  by (simp add: pow2_powi power_int_minus field_simps)

lemma ilog2_bounds:
  assumes "0 < q"
  shows "pow2 (ilog2 q) \<le> q \<and> q < pow2 (ilog2 q + 1)"
proof (cases "1 \<le> q")
  case True
  let ?n = "\<lfloor>q\<rfloor>"
  let ?k = "bit_length ?n"
  from True have n: "0 < ?n"
    by simp
  note b = bit_length_bounds [OF n]
  have k: "1 \<le> ?k"
    using n bit_length_nonneg [of "?n div 2"] by (subst bit_length.simps) simp
  have "pow2 (?k - 1) = of_int (2 ^ nat (?k - 1))"
    using k by (simp add: pow2_nat)
  also have "\<dots> \<le> of_int ?n"
    using b by (simp only: of_int_le_iff)
  also have "\<dots> \<le> q"
    by simp
  finally have lo: "pow2 (?k - 1) \<le> q" .
  from b have "?n + 1 \<le> 2 ^ nat ?k"
    by simp
  then have "of_int (?n + 1) \<le> (of_int (2 ^ nat ?k) :: real)"
    by (simp only: of_int_le_iff)
  moreover have "q < of_int (?n + 1)"
    by linarith
  ultimately have "q < of_int (2 ^ nat ?k)"
    by linarith
  also have "\<dots> = pow2 ?k"
    using k by (simp add: pow2_nat)
  finally have hi: "q < pow2 ?k" .
  from True lo hi show ?thesis
    by (simp add: ilog2_def)
next
  case False
  let ?m = "\<lceil>1 / q\<rceil> - 1"
  let ?k = "bit_length ?m"
  from False assms have "1 < 1 / q"
    by simp
  then have m: "0 < ?m"
    by linarith
  note b = bit_length_bounds [OF m]
  have k: "1 \<le> ?k"
    using m bit_length_nonneg [of "?m div 2"] by (subst bit_length.simps) simp
  have m1: "of_int ?m < 1 / q" and m2: "1 / q \<le> of_int ?m + 1"
    by linarith+
  from b have "?m + 1 \<le> 2 ^ nat ?k"
    by simp
  then have "of_int (?m + 1) \<le> (of_int (2 ^ nat ?k) :: real)"
    by (simp only: of_int_le_iff)
  with m2 have "1 / q \<le> of_int (2 ^ nat ?k)"
    by linarith
  also have "\<dots> = pow2 ?k"
    using k by (simp add: pow2_nat)
  finally have "1 / q \<le> pow2 ?k" .
  then have lo: "pow2 (- ?k) \<le> q"
    using assms pow2_pos [of ?k] by (simp add: pow2_neg field_simps)
  have "pow2 (?k - 1) = of_int (2 ^ nat (?k - 1))"
    using k by (simp add: pow2_nat)
  also have "\<dots> \<le> of_int ?m"
    using b by (simp only: of_int_le_iff)
  also have "\<dots> < 1 / q"
    by (fact m1)
  finally have "pow2 (?k - 1) < 1 / q" .
  then have "q < 1 / pow2 (?k - 1)"
    using assms pow2_pos [of "?k - 1"] by (simp add: field_simps)
  then have hi: "q < pow2 (- ?k + 1)"
    using pow2_neg [of "?k - 1"] by simp
  from False lo hi show ?thesis
    by (simp add: ilog2_def)
qed

lemma round_even_error: "\<bar>of_int (round_even x) - x\<bar> \<le> 1 / 2"
  unfolding round_even_def Let_def by (auto; linarith)

lemma round_even_mono: "of_int m \<le> x \<Longrightarrow> m \<le> round_even x"
proof -
  assume "of_int m \<le> x"
  then have "m \<le> \<lfloor>x\<rfloor>"
    by (simp add: le_floor_iff)
  moreover have "\<lfloor>x\<rfloor> \<le> round_even x"
    by (simp add: round_even_def Let_def)
  ultimately show ?thesis
    by simp
qed


lemma round64_error:
  assumes "round64 q = Finite v" and "pow2 (- 1022) \<le> \<bar>v\<bar>"
  shows "\<bar>v - q\<bar> \<le> \<bar>v\<bar> / 2 ^ 53"
proof -
  define e where "e = max (ilog2 \<bar>q\<bar> - 52) (- 1074)"
  define n where "n = round_even (\<bar>q\<bar> / pow2 e)"
  define w where "w = of_int n * pow2 e"
  have q: "q \<noteq> 0"
    using assms pow2_pos [of "- 1022"] by (auto simp: round64_def)
  from assms(1) q have v: "v = (if 0 < q then w else - w)"
    by (auto simp: round64_def Let_def e_def n_def w_def f64_inf_def f64_zero_def
        split: if_splits)
  have "of_int 0 \<le> \<bar>q\<bar> / pow2 e"
    using pow2_pos [of e] by simp
  then have "0 \<le> n"
    unfolding n_def by (rule round_even_mono)
  then have w: "0 \<le> w"
    using pow2_pos [of e] by (simp add: w_def)
  with v have absv: "\<bar>v\<bar> = w"
    by simp
  from v q have diff: "\<bar>v - q\<bar> = \<bar>w - \<bar>q\<bar>\<bar>"
    by (auto simp: abs_if)
  have "w - \<bar>q\<bar> = (of_int n - \<bar>q\<bar> / pow2 e) * pow2 e"
    using pow2_pos [of e] by (simp add: w_def field_simps)
  then have "\<bar>w - \<bar>q\<bar>\<bar> = \<bar>of_int n - \<bar>q\<bar> / pow2 e\<bar> * pow2 e"
    using pow2_pos [of e] by (simp add: abs_mult)
  also have "\<dots> \<le> 1 / 2 * pow2 e"
    using round_even_error [of "\<bar>q\<bar> / pow2 e"] pow2_pos [of e]
    by (intro mult_right_mono) (simp_all add: n_def)
  finally have err: "\<bar>w - \<bar>q\<bar>\<bar> \<le> pow2 e / 2"
    by simp
  have big: "pow2 e * 2 ^ 52 \<le> w"
  proof (cases "ilog2 \<bar>q\<bar> - 52 \<le> - 1074")
    case True
    then have "e = - 1074"
      by (simp add: e_def)
    moreover have "pow2 (- 1074 + 52) = pow2 (- 1074) * pow2 52"
      by (rule pow2_add)
    moreover have "pow2 52 = 2 ^ 52"
      by (simp add: pow2_def)
    ultimately show ?thesis
      using assms(2) absv by simp
  next
    case False
    then have e: "ilog2 \<bar>q\<bar> = e + 52"
      by (simp add: e_def)
    from q have "pow2 (ilog2 \<bar>q\<bar>) \<le> \<bar>q\<bar>"
      using ilog2_bounds [of "\<bar>q\<bar>"] by simp
    then have "pow2 e * pow2 52 \<le> \<bar>q\<bar>"
      by (simp add: e pow2_add)
    moreover have p52: "pow2 52 = of_int (2 ^ 52)"
      by (simp add: pow2_def)
    ultimately have "of_int (2 ^ 52) \<le> \<bar>q\<bar> / pow2 e"
      using pow2_pos [of e] by (simp add: field_simps)
    then have "2 ^ 52 \<le> n"
      unfolding n_def by (rule round_even_mono)
    then have "(of_int (2 ^ 52) :: real) \<le> of_int n"
      by (simp only: of_int_le_iff)
    then have "of_int (2 ^ 52) * pow2 e \<le> of_int n * pow2 e"
      using pow2_pos [of e] by (intro mult_right_mono) simp_all
    then show ?thesis
      by (simp add: w_def mult.commute)
  qed
  from diff err big absv show ?thesis
    by simp
qed

lemma three_roundings_linear:
  fixes A P C D E1 E2 E3 :: real
  assumes "E2 \<le> A / 2 ^ 53" and "A \<le> P + E1" and "P \<le> C + D"
    and "D \<le> E1 + E2 + E3" and "E1 \<le> P / 2 ^ 53" and "E3 \<le> C / 2 ^ 53"
    and "0 \<le> C"
  shows "D \<le> C / 2 ^ 51"
  using assms by simp

lemma three_roundings:
  fixes a p c x e :: real
  assumes "\<bar>a - x\<bar> \<le> \<bar>a\<bar> / 2 ^ 53"
    and "\<bar>p - a * e\<bar> \<le> \<bar>p\<bar> / 2 ^ 53"
    and "\<bar>c - x * e\<bar> \<le> \<bar>c\<bar> / 2 ^ 53"
  shows "\<bar>p - c\<bar> \<le> \<bar>c\<bar> / 2 ^ 51"
proof -
  have "\<bar>a * e - x * e\<bar> = \<bar>a - x\<bar> * \<bar>e\<bar>"
    by (simp add: abs_mult left_diff_distrib [symmetric])
  also have "\<dots> \<le> \<bar>a\<bar> / 2 ^ 53 * \<bar>e\<bar>"
    using assms(1) by (intro mult_right_mono) simp_all
  also have "\<dots> = \<bar>a * e\<bar> / 2 ^ 53"
    by (simp add: abs_mult)
  finally have s1: "\<bar>a * e - x * e\<bar> \<le> \<bar>a * e\<bar> / 2 ^ 53" .
  have s2: "\<bar>a * e\<bar> \<le> \<bar>p\<bar> + \<bar>p - a * e\<bar>"
    by linarith
  have s3: "\<bar>p\<bar> \<le> \<bar>c\<bar> + \<bar>p - c\<bar>"
    by linarith
  have s4: "\<bar>p - c\<bar> \<le> \<bar>p - a * e\<bar> + \<bar>a * e - x * e\<bar> + \<bar>c - x * e\<bar>"
    by linarith
  from s1 s2 s3 s4 assms(2,3) show ?thesis
    by (rule three_roundings_linear) simp
qed

lemma f64_divide_Finite:
  assumes "f64_divide x y = Finite c" and "c \<noteq> 0"
  shows "\<exists>a b. x = Finite a \<and> y = Finite b \<and> round64 (a / b) = Finite c"
  using assms
  by (cases x; cases y)
    (auto simp: f64_divide_def f64_zero_def f64_inf_def Let_def split: if_splits)

lemma f64_times_Finite:
  assumes "f64_times x y = Finite c" and "c \<noteq> 0"
  shows "\<exists>a b. x = Finite a \<and> y = Finite b \<and> round64 (a * b) = Finite c"
  using assms
  by (cases x; cases y)
    (auto simp: f64_times_def f64_zero_def f64_inf_def Let_def split: if_splits)

lemma f64_normal_Finite:
  "f64_normal x \<longleftrightarrow> (\<exists>a. x = Finite a \<and> pow2 (- 1022) \<le> \<bar>a\<bar>)"
  by (cases x) (simp_all add: f64_normal_def)

lemma f64_product_error:
  assumes "1 / y = Finite a" and "pow2 (- 1022) \<le> \<bar>a\<bar>"
    and "1 / y * x = Finite p" and "pow2 (- 1022) \<le> \<bar>p\<bar>"
    and "x / y = Finite c" and "pow2 (- 1022) \<le> \<bar>c\<bar>"
  shows "\<bar>p - c\<bar> \<le> \<bar>c\<bar> / 2 ^ 51"
proof -
  have nz: "a \<noteq> 0" "p \<noteq> 0" "c \<noteq> 0"
    using assms(2,4,6) pow2_pos [of "- 1022"] by auto
  from assms(1) nz(1) obtain d where y: "y = Finite d" and a: "round64 (1 / d) = Finite a"
    using f64_divide_Finite [of "Finite 1" y a] by (auto simp: divide_float64_def one_float64_def)
  from assms(5) nz(3) y obtain e where x: "x = Finite e" and c: "round64 (e / d) = Finite c"
    using f64_divide_Finite [of x y c] by (auto simp: divide_float64_def)
  from assms(3) nz(2) assms(1) x have p: "round64 (a * e) = Finite p"
    using f64_times_Finite [of "Finite a" x p] by (auto simp: times_float64_def)
  have "\<bar>a - 1 / d\<bar> \<le> \<bar>a\<bar> / 2 ^ 53"
    using a assms(2) by (rule round64_error)
  moreover have "\<bar>p - a * e\<bar> \<le> \<bar>p\<bar> / 2 ^ 53"
    using p assms(4) by (rule round64_error)
  moreover have "\<bar>c - 1 / d * e\<bar> \<le> \<bar>c\<bar> / 2 ^ 53"
    using round64_error [OF c assms(6)] by simp
  ultimately show ?thesis
    by (rule three_roundings)
qed

text \<open>
  C6, amended. Of every run in float64 that returns, the formation factor is \<open>1 / Deff\<close>
  and the tortuosity is the effective porosity divided by the same
  \<open>Deff = rate_in / N_A\<close>. The formation factor times the effective porosity, computed in
  float64, need not be the tortuosity; but whenever the formation factor, that product
  and the tortuosity are normal values, the product and the tortuosity differ by at
  most \<open>2 ^ -51\<close> times the magnitude of the tortuosity.
\<close>

theorem formation_factor:
  fixes env :: "(float64, 'x, 'net, 'ph, 'fd) env"
  assumes "tortuosity env im axis return_im kwargs = (t, Inr f)"
  shows "res_formation_factor (v_result f) = 1 / v_Deff f \<and>
     res_tortuosity (v_result f) = res_effective_porosity (v_result f) / v_Deff f \<and>
     v_Deff f = rate_in (v_sim f) /
       (to_float env (int (prod_list (shape (v_im f)))) / to_float env (int (v_L f))
          / to_float env (int (v_L f)) * (1 - 0)) \<and>
     (f64_normal (res_formation_factor (v_result f)) \<and>
      f64_normal (res_formation_factor (v_result f) * res_effective_porosity (v_result f)) \<and>
      f64_normal (res_tortuosity (v_result f)) \<longrightarrow>
        (\<exists>p c. res_formation_factor (v_result f) * res_effective_porosity (v_result f) =
             Finite p \<and>
           res_tortuosity (v_result f) = Finite c \<and>
           \<bar>p - c\<bar> \<le> \<bar>c\<bar> / 2 ^ 51))"
proof -
  note r = tortuosity_returns [OF assms]
  let ?ff = "res_formation_factor (v_result f)"
  let ?eps = "res_effective_porosity (v_result f)"
  let ?tau = "res_tortuosity (v_result f)"
  have ff: "?ff = 1 / v_Deff f"
    by (fact r(16))
  have tau: "?tau = ?eps / v_Deff f"
    by (simp add: r(12,13,14))
  have deff: "v_Deff f = rate_in (v_sim f) /
       (to_float env (int (prod_list (shape (v_im f)))) / to_float env (int (v_L f))
          / to_float env (int (v_L f)) * (1 - 0))"
    by (simp add: r(8,9,10,11) C_in_def C_out_def)
  have "\<exists>p c. ?ff * ?eps = Finite p \<and> ?tau = Finite c \<and> \<bar>p - c\<bar> \<le> \<bar>c\<bar> / 2 ^ 51"
    if "f64_normal ?ff \<and> f64_normal (?ff * ?eps) \<and> f64_normal ?tau"
  proof -
    from that obtain a p c
      where a: "?ff = Finite a" "pow2 (- 1022) \<le> \<bar>a\<bar>"
        and p: "?ff * ?eps = Finite p" "pow2 (- 1022) \<le> \<bar>p\<bar>"
        and c: "?tau = Finite c" "pow2 (- 1022) \<le> \<bar>c\<bar>"
      unfolding f64_normal_Finite by blast
    from a(1) have a': "1 / v_Deff f = Finite a"
      by (simp only: ff)
    from p(1) have p': "1 / v_Deff f * ?eps = Finite p"
      by (simp only: ff)
    from c(1) have c': "?eps / v_Deff f = Finite c"
      by (simp only: tau)
    from a' a(2) p' p(2) c' c(2) have "\<bar>p - c\<bar> \<le> \<bar>c\<bar> / 2 ^ 51"
      by (rule f64_product_error)
    with p(1) c(1) show ?thesis
      by blast
  qed
  with ff tau deff show ?thesis
    by blast
qed

theorem formation_factor_witness:
  "\<exists>t f. tortuosity float_env comb 0 False Map.empty = (t, Inr f) \<and>
     res_formation_factor (v_result f) = Finite (5 / 4) \<and>
     res_effective_porosity (v_result f) = Finite (5404319552844595 / 9007199254740992) \<and>
     res_tortuosity (v_result f) = Finite (6755399441055743 / 9007199254740992) \<and>
     res_formation_factor (v_result f) = 1 / v_Deff f \<and>
     f64_normal (res_formation_factor (v_result f)) \<and>
     f64_normal (res_formation_factor (v_result f) * res_effective_porosity (v_result f)) \<and>
     f64_normal (res_tortuosity (v_result f)) \<and>
     res_formation_factor (v_result f) * res_effective_porosity (v_result f) =
       Finite (3 / 4) \<and>
     \<bar>3 / 4 - 6755399441055743 / 9007199254740992 :: real\<bar> \<le>
       \<bar>6755399441055743 / 9007199254740992\<bar> / 2 ^ 51"
proof -
  obtain t r where run: "tortuosity float_env comb 0 False Map.empty = (t, r)"
    by (cases "tortuosity float_env comb 0 False Map.empty")
  with comb_run obtain f
    where f: "r = Inr f"
      and res: "v_result f =
       \<lparr>res_tortuosity = Finite (6755399441055743 / 9007199254740992),
         res_effective_porosity = Finite (5404319552844595 / 9007199254740992),
         res_original_porosity = Finite (5404319552844595 / 9007199254740992),
         res_formation_factor = Finite (5 / 4), res_image = None\<rparr>"
    by (cases r) (simp_all add: returned_def)
  from run f have run': "tortuosity float_env comb 0 False Map.empty = (t, Inr f)"
    by simp
  have vals: "res_formation_factor (v_result f) = Finite (5 / 4)"
    "res_effective_porosity (v_result f) = Finite (5404319552844595 / 9007199254740992)"
    "res_tortuosity (v_result f) = Finite (6755399441055743 / 9007199254740992)"
    by (simp_all add: res)
  have prod: "res_formation_factor (v_result f) * res_effective_porosity (v_result f) =
      Finite (3 / 4)"
    by (simp only: vals comb_product)
  have normal: "f64_normal (res_formation_factor (v_result f))"
    "f64_normal (res_formation_factor (v_result f) * res_effective_porosity (v_result f))"
    "f64_normal (res_tortuosity (v_result f))"
  proof -
    show "f64_normal (res_formation_factor (v_result f))"
      by (simp add: vals(1) f64_normal_def pow2_def)
    show "f64_normal (res_formation_factor (v_result f) * res_effective_porosity (v_result f))"
      by (simp only: prod) (simp add: f64_normal_def pow2_def)
    show "f64_normal (res_tortuosity (v_result f))"
      by (simp add: vals(3) f64_normal_def pow2_def)
  qed
  from formation_factor [OF run'] normal
  have ff: "res_formation_factor (v_result f) = 1 / v_Deff f"
    and "\<exists>p c. res_formation_factor (v_result f) * res_effective_porosity (v_result f) =
         Finite p \<and>
       res_tortuosity (v_result f) = Finite c \<and> \<bar>p - c\<bar> \<le> \<bar>c\<bar> / 2 ^ 51"
    by blast+
  then obtain p c
    where "res_formation_factor (v_result f) * res_effective_porosity (v_result f) = Finite p"
      and "res_tortuosity (v_result f) = Finite c"
      and close: "\<bar>p - c\<bar> \<le> \<bar>c\<bar> / 2 ^ 51"
    by blast
  with prod vals(3) have "p = 3 / 4" "c = 6755399441055743 / 9007199254740992"
    by simp_all
  with close have bound: "\<bar>3 / 4 - 6755399441055743 / 9007199254740992 :: real\<bar> \<le>
      \<bar>6755399441055743 / 9007199254740992\<bar> / 2 ^ 51"
    by (simp only:)
  from run' vals ff normal prod bound show ?thesis
    by blast
qed

end
